theory Spec2Isabelle
  imports Main "HOL-Library.Word"
begin

unbundle bit_operations_syntax

section \<open>Common data\<close>

text \<open>
  Go strings and byte slices are sequences of bytes; both are modelled as \<open>string\<close>
  (a list of 8-bit characters).

  A Go \<open>error\<close> value is either produced by a library call (\<open>LibError\<close>, with a tag
  naming the failure) or built by \<open>fmt.Errorf\<close> from a format, its string arguments
  and, for the verb \<open>%w\<close>, the wrapped error. The source's messages are Russian; the
  formats below are their English renderings. No function of the program inspects a
  message.
\<close>

datatype error =
    LibError string
  | Errorf string "string list" "error option"

section \<open>CA material loader\<close>

text \<open>The values of \<open>encoding/pem\<close>, \<open>crypto/rsa\<close> and \<open>crypto/x509\<close> the program handles.\<close>

record pem_Block =
  Type :: string
  Bytes :: string

datatype rsa_PublicKey = RSAPublicKey (modulus: nat) (exponent: nat)

datatype rsa_PrivateKey = RSAPrivateKey (PublicKey: rsa_PublicKey) (secret: nat)

datatype ExtKeyUsage = ExtKeyUsageAny | ExtKeyUsageServerAuth | ExtKeyUsageClientAuth

record pkix_Name =
  CommonName :: string
  Organization :: "string list"

text \<open>
  \<open>x509.Certificate\<close>, with the fields the program sets or a claim reads. Times are
  instants in nanoseconds; \<open>KeyUsage\<close> is Go's \<open>type KeyUsage int\<close>, a bit set.
  \<open>cert_PublicKey\<close> is the field \<open>PublicKey\<close>, nil in a template.
\<close>

record x509_Certificate =
  Raw :: string
  SerialNumber :: int
  Subject :: pkix_Name
  NotBefore :: int
  NotAfter :: int
  KeyUsage :: "64 word"
  ExtKeyUsages :: "ExtKeyUsage list"
  BasicConstraintsValid :: bool
  DNSNames :: "string list"
  cert_PublicKey :: "rsa_PublicKey option"

text \<open>
  The library calls of the loader, which are not code of this repository: the file
  system (\<open>os.ReadFile\<close>), \<open>pem.Decode\<close> (the first block found, or nil, and the
  remaining bytes), \<open>x509.ParseCertificate\<close> and \<open>x509.ParsePKCS1PrivateKey\<close>.
  The model is parametric in them.
\<close>

record ca_env =
  os_ReadFile :: "string \<Rightarrow> error + string"
  pem_Decode :: "string \<Rightarrow> pem_Block option \<times> string"
  x509_ParseCertificate :: "string \<Rightarrow> error + x509_Certificate"
  x509_ParsePKCS1PrivateKey :: "string \<Rightarrow> error + rsa_PrivateKey"

record CertificateManager =
  rootCertificate :: "x509_Certificate option"
  privateKey :: "rsa_PrivateKey option"

text \<open>\<open>var certManager = &CertificateManager{}\<close>: both fields nil.\<close>

definition certManager :: CertificateManager where
  "certManager = \<lparr>rootCertificate = None, privateKey = None\<rparr>"

definition readSecureFile :: "ca_env \<Rightarrow> string \<Rightarrow> error + string" where
  "readSecureFile W path =
     (case os_ReadFile W path of
        Inl err \<Rightarrow> Inl (Errorf ''error reading file %s: %w'' [path] (Some err))
      | Inr content \<Rightarrow>
          if length content = 0 then Inl (Errorf ''file %s is empty'' [path] None)
          else Inr content)"

definition loadCertificateFiles :: "ca_env \<Rightarrow> string \<Rightarrow> string \<Rightarrow> error + (string \<times> string)" where
  "loadCertificateFiles W certPath keyPath =
     (case readSecureFile W certPath of
        Inl err \<Rightarrow> Inl (Errorf ''cannot read certificate: %w'' [] (Some err))
      | Inr certContent \<Rightarrow>
          (case readSecureFile W keyPath of
             Inl err \<Rightarrow> Inl (Errorf ''cannot read key: %w'' [] (Some err))
           | Inr keyContent \<Rightarrow> Inr (certContent, keyContent)))"

definition parseCertificateBlock :: "ca_env \<Rightarrow> string \<Rightarrow> error + x509_Certificate" where
  "parseCertificateBlock W data =
     (case pem_Decode W data of
        (None, rest) \<Rightarrow> Inl (Errorf ''malformed certificate PEM'' [] None)
      | (Some block, rest) \<Rightarrow>
          if length rest > 0 then Inl (Errorf ''malformed certificate PEM'' [] None)
          else if Type block \<noteq> ''CERTIFICATE''
          then Inl (Errorf ''wrong PEM block type: %s'' [Type block] None)
          else (case x509_ParseCertificate W (Bytes block) of
                  Inl err \<Rightarrow> Inl (Errorf ''certificate parse error: %w'' [] (Some err))
                | Inr cert \<Rightarrow> Inr cert))"

definition parsePrivateKeyBlock :: "ca_env \<Rightarrow> string \<Rightarrow> error + rsa_PrivateKey" where
  "parsePrivateKeyBlock W data =
     (case pem_Decode W data of
        (None, rest) \<Rightarrow> Inl (Errorf ''malformed key PEM'' [] None)
      | (Some block, rest) \<Rightarrow>
          if length rest > 0 then Inl (Errorf ''malformed key PEM'' [] None)
          else if Type block \<noteq> ''RSA PRIVATE KEY''
          then Inl (Errorf ''wrong PEM block type: %s'' [Type block] None)
          else (case x509_ParsePKCS1PrivateKey W (Bytes block) of
                  Inl err \<Rightarrow> Inl (Errorf ''private key parse error: %w'' [] (Some err))
                | Inr key \<Rightarrow> Inr key))"

text \<open>
  A method with a pointer receiver that returns \<open>error\<close>: the model returns the error
  (\<open>None\<close> for nil) and the receiver after the call.
\<close>

definition processCertificateData ::
  "ca_env \<Rightarrow> CertificateManager \<Rightarrow> string \<Rightarrow> string \<Rightarrow> error option \<times> CertificateManager" where
  "processCertificateData W cm certData keyData =
     (case parseCertificateBlock W certData of
        Inl err \<Rightarrow> (Some err, cm)
      | Inr cert \<Rightarrow>
          (case parsePrivateKeyBlock W keyData of
             Inl err \<Rightarrow> (Some err, cm)
           | Inr key \<Rightarrow> (None, cm\<lparr>rootCertificate := Some cert, privateKey := Some key\<rparr>)))"

definition InitializeCertificateAuthority ::
  "ca_env \<Rightarrow> CertificateManager \<Rightarrow> string \<Rightarrow> string \<Rightarrow> error option \<times> CertificateManager" where
  "InitializeCertificateAuthority W cm certPath keyPath =
     (case loadCertificateFiles W certPath keyPath of
        Inl err \<Rightarrow> (Some (Errorf ''error loading certificate files: %w'' [] (Some err)), cm)
      | Inr (certData, keyData) \<Rightarrow>
          (case processCertificateData W cm certData keyData of
             (Some err, cm') \<Rightarrow> (Some (Errorf ''error processing certificate data: %w'' [] (Some err)), cm')
           | (None, cm') \<Rightarrow> (None, cm')))"

definition LoadCA ::
  "ca_env \<Rightarrow> CertificateManager \<Rightarrow> string \<Rightarrow> string \<Rightarrow> error option \<times> CertificateManager" where
  "LoadCA W cm certPath keyPath = InitializeCertificateAuthority W cm certPath keyPath"

definition GetCertificateAndKey ::
  "CertificateManager \<Rightarrow> x509_Certificate option \<times> rsa_PrivateKey option" where
  "GetCertificateAndKey cm = (rootCertificate cm, privateKey cm)"

subsection \<open>The loader's conditions, in the specification's words\<close>

text \<open>
  The specification lists when loading fails: a file that is unreadable or empty, a
  file that does not decode as exactly one PEM block with no trailing bytes, a block of
  the wrong type, a block whose contents do not parse. The definitions below say this
  about one file; \<open>LoadCA\<close> above is compared with them.
\<close>

definition unreadable_or_empty :: "ca_env \<Rightarrow> string \<Rightarrow> bool" where
  "unreadable_or_empty W path =
     (case os_ReadFile W path of Inl err \<Rightarrow> True | Inr content \<Rightarrow> content = [])"

definition file_content :: "ca_env \<Rightarrow> string \<Rightarrow> string" where
  "file_content W path = (case os_ReadFile W path of Inl err \<Rightarrow> [] | Inr content \<Rightarrow> content)"

definition single_pem_block :: "ca_env \<Rightarrow> string \<Rightarrow> pem_Block option" where
  "single_pem_block W data =
     (case pem_Decode W data of
        (Some block, rest) \<Rightarrow> if rest = [] then Some block else None
      | (None, rest) \<Rightarrow> None)"

text \<open>What a successful load is: both files read, decoded and parsed.\<close>

definition loads :: "ca_env \<Rightarrow> string \<Rightarrow> string \<Rightarrow> x509_Certificate \<Rightarrow> rsa_PrivateKey \<Rightarrow> bool" where
  "loads W certPath keyPath cert key =
     (\<exists>cd kd cb kb.
        os_ReadFile W certPath = Inr cd \<and> cd \<noteq> [] \<and>
        os_ReadFile W keyPath = Inr kd \<and> kd \<noteq> [] \<and>
        pem_Decode W cd = (Some cb, []) \<and> Type cb = ''CERTIFICATE'' \<and>
        x509_ParseCertificate W (Bytes cb) = Inr cert \<and>
        pem_Decode W kd = (Some kb, []) \<and> Type kb = ''RSA PRIVATE KEY'' \<and>
        x509_ParsePKCS1PrivateKey W (Bytes kb) = Inr key)"

subsection \<open>A concrete environment\<close>

text \<open>
  Two files, each one PEM block of the right type that parses on its own. The
  certificate carries one RSA public key; the private key belongs to another.
\<close>

definition demo_root_cert :: x509_Certificate where
  "demo_root_cert =
     \<lparr>Raw = ''der:root'', SerialNumber = 1,
      Subject = \<lparr>CommonName = ''proxy CA'', Organization = []\<rparr>,
      NotBefore = 0, NotAfter = 1000, KeyUsage = 0, ExtKeyUsages = [],
      BasicConstraintsValid = True, DNSNames = [],
      cert_PublicKey = Some (RSAPublicKey 3233 17)\<rparr>"

definition demo_root_key :: rsa_PrivateKey where
  "demo_root_key = RSAPrivateKey (RSAPublicKey 3233 17) 2753"

definition demo_other_key :: rsa_PrivateKey where
  "demo_other_key = RSAPrivateKey (RSAPublicKey 3127 3) 2011"

definition demo_ReadFile :: "string \<Rightarrow> error + string" where
  "demo_ReadFile path =
     (if path = ''ca.crt'' then Inr ''pem:cert''
      else if path = ''ca.key'' then Inr ''pem:key''
      else if path = ''other.key'' then Inr ''pem:other''
      else if path = ''empty.key'' then Inr []
      else if path = ''garbage.key'' then Inr ''not a PEM file''
      else Inl (LibError ''no such file''))"

definition demo_Decode :: "string \<Rightarrow> pem_Block option \<times> string" where
  "demo_Decode data =
     (if data = ''pem:cert'' then (Some \<lparr>Type = ''CERTIFICATE'', Bytes = ''der:root''\<rparr>, [])
      else if data = ''pem:key'' then (Some \<lparr>Type = ''RSA PRIVATE KEY'', Bytes = ''der:key''\<rparr>, [])
      else if data = ''pem:other'' then (Some \<lparr>Type = ''RSA PRIVATE KEY'', Bytes = ''der:other''\<rparr>, [])
      else (None, data))"

definition demo_ParseCertificate :: "string \<Rightarrow> error + x509_Certificate" where
  "demo_ParseCertificate der =
     (if der = ''der:root'' then Inr demo_root_cert else Inl (LibError ''x509: malformed certificate''))"

definition demo_ParsePKCS1PrivateKey :: "string \<Rightarrow> error + rsa_PrivateKey" where
  "demo_ParsePKCS1PrivateKey der =
     (if der = ''der:key'' then Inr demo_root_key
      else if der = ''der:other'' then Inr demo_other_key
      else Inl (LibError ''x509: failed to parse private key''))"

definition demo_ca_env :: ca_env where
  "demo_ca_env =
     \<lparr>os_ReadFile = demo_ReadFile, pem_Decode = demo_Decode,
      x509_ParseCertificate = demo_ParseCertificate,
      x509_ParsePKCS1PrivateKey = demo_ParsePKCS1PrivateKey\<rparr>"

section \<open>Strings\<close>

text \<open>
  The functions of Go's \<open>strings\<close> package the program calls, after their source. Each
  has a fast path for strings of ASCII bytes only, modelled here in full, and falls back
  to a Unicode-aware routine when it meets a byte \<open>\<ge> 0x80\<close> (\<open>utf8.RuneSelf\<close>). The
  fallbacks, \<open>url.Parse\<close>, the dialer and the order in which \<open>range\<close> visits a map belong
  to the Go runtime and library; the model is parametric in them.
\<close>

record URL =
  Scheme :: string
  Host :: string
  Hostname :: string
  Port :: string
  RequestURI :: string

text \<open>
  \<open>URL\<close> is a parsed \<open>*url.URL\<close>, seen through what the program reads of it: the fields
  \<open>Scheme\<close> and \<open>Host\<close> and the results of the methods \<open>Hostname()\<close>, \<open>Port()\<close> and
  \<open>RequestURI()\<close>.
\<close>

record go_env =
  Map_unicode_ToLower :: "string \<Rightarrow> string"
  Map_unicode_ToUpper :: "string \<Rightarrow> string"
  TrimFunc_IsSpace :: "string \<Rightarrow> string"
  TrimRightFunc_IsSpace :: "string \<Rightarrow> string"
  FieldsFunc_IsSpace :: "string \<Rightarrow> string list"
  url_Parse :: "string \<Rightarrow> error + URL"
  net_Dial :: "string \<Rightarrow> error option"
  range_order :: "(string \<rightharpoonup> string) \<Rightarrow> string list"

definition CR :: char where "CR = CHR 0x0D"
definition LF :: char where "LF = CHR 0x0A"
definition CRLF :: string where "CRLF = [CR, LF]"

definition is_ascii :: "char \<Rightarrow> bool" where
  "is_ascii c = ((of_char c :: nat) < 128)"

text \<open>\<open>asciiSpace\<close>: tab, line feed, vertical tab, form feed, carriage return, space.\<close>

definition asciiSpace :: "char \<Rightarrow> bool" where
  "asciiSpace c =
     (c = CHR 0x09 \<or> c = CHR 0x0A \<or> c = CHR 0x0B \<or> c = CHR 0x0C \<or> c = CHR 0x0D \<or> c = CHR 0x20)"

definition ascii_lower :: "char \<Rightarrow> char" where
  "ascii_lower c =
     (let n = (of_char c :: nat) in if 65 \<le> n \<and> n \<le> 90 then char_of (n + 32) else c)"

definition ascii_upper :: "char \<Rightarrow> char" where
  "ascii_upper c =
     (let n = (of_char c :: nat) in if 97 \<le> n \<and> n \<le> 122 then char_of (n - 32) else c)"

definition ToLower :: "go_env \<Rightarrow> string \<Rightarrow> string" where
  "ToLower L s = (if list_all is_ascii s then map ascii_lower s else Map_unicode_ToLower L s)"

definition ToUpper :: "go_env \<Rightarrow> string \<Rightarrow> string" where
  "ToUpper L s = (if list_all is_ascii s then map ascii_upper s else Map_unicode_ToUpper L s)"

text \<open>
  \<open>TrimSpace\<close> skips ASCII space from the left; at a non-ASCII byte it hands the rest to
  \<open>TrimFunc(_, unicode.IsSpace)\<close>. Then it skips ASCII space from the right; at a
  non-ASCII byte it hands what is left to \<open>TrimRightFunc(_, unicode.IsSpace)\<close>.
\<close>

definition TrimSpace :: "go_env \<Rightarrow> string \<Rightarrow> string" where
  "TrimSpace L s =
     (case dropWhile asciiSpace s of
        [] \<Rightarrow> []
      | c # cs \<Rightarrow>
          if \<not> is_ascii c then TrimFunc_IsSpace L (c # cs)
          else (let b = rev (dropWhile asciiSpace (rev (c # cs)))
                in if \<not> is_ascii (last b) then TrimRightFunc_IsSpace L b else b))"

fun ascii_fields :: "string \<Rightarrow> string \<Rightarrow> string list" where
  "ascii_fields w [] = (if w = [] then [] else [w])"
| "ascii_fields w (c # cs) =
     (if asciiSpace c then (if w = [] then ascii_fields [] cs else w # ascii_fields [] cs)
      else ascii_fields (w @ [c]) cs)"

definition Fields :: "go_env \<Rightarrow> string \<Rightarrow> string list" where
  "Fields L s = (if list_all is_ascii s then ascii_fields [] s else FieldsFunc_IsSpace L s)"

text \<open>
  \<open>SplitN(s, sep, n)\<close> for a separator of one byte, as the program uses it: at most \<open>n\<close>
  pieces, the last one unsplit; no piece for \<open>n = 0\<close>.
\<close>

fun cut :: "char \<Rightarrow> string \<Rightarrow> (string \<times> string) option" where
  "cut sep [] = None"
| "cut sep (c # cs) =
     (if c = sep then Some ([], cs)
      else (case cut sep cs of None \<Rightarrow> None | Some (a, b) \<Rightarrow> Some (c # a, b)))"

fun SplitN :: "string \<Rightarrow> char \<Rightarrow> nat \<Rightarrow> string list" where
  "SplitN s sep 0 = []"
| "SplitN s sep (Suc 0) = [s]"
| "SplitN s sep (Suc (Suc n)) =
     (case cut sep s of None \<Rightarrow> [s] | Some (a, b) \<Rightarrow> a # SplitN b sep (Suc n))"

text \<open>\<open>net.JoinHostPort\<close>: a host with a colon (a literal IPv6 address) is bracketed.\<close>

definition JoinHostPort :: "string \<Rightarrow> string \<Rightarrow> string" where
  "JoinHostPort host port =
     (if CHR '':'' \<in> set host then ''['' @ host @ '']:'' @ port
      else host @ '':'' @ port)"

section \<open>Leaf certificate mint and cache\<close>

text \<open>
  \<open>tls.Certificate\<close>: the DER chain and the private key. The cache holds pointers
  \<open>*tls.Certificate\<close>; a pointer is the index of its object in the list of the
  certificate objects allocated so far, and \<open>&tlsCert\<close> appends a new object.
\<close>

record tls_Certificate =
  Certificate :: "string list"
  tls_PrivateKey :: rsa_PrivateKey

type_synonym ref = nat

record CertificateGenerator =
  keySize :: int
  organization :: string
  validityDays :: int
  rootCert :: "x509_Certificate option"
  rootKey :: "rsa_PrivateKey option"

record CertificateStore =
  cache :: "string \<rightharpoonup> ref"
  generator :: CertificateGenerator

type_synonym store_state = "CertificateStore \<times> tls_Certificate list"

text \<open>
  What one mint takes from outside the program: the key \<open>rsa.GenerateKey\<close> draws for a
  size, the number the random source yields to \<open>rand.Int\<close> (or its failure), the clock,
  and the library's signing, encoding and pairing functions.
\<close>

record mint_env =
  rsa_GenerateKey :: "int \<Rightarrow> error + rsa_PrivateKey"
  rand_Reader :: "error + nat"
  time_Now :: int
  x509_CreateCertificate ::
    "x509_Certificate \<Rightarrow> x509_Certificate \<Rightarrow> rsa_PublicKey \<Rightarrow> rsa_PrivateKey \<Rightarrow> error + string"
  pem_EncodeToMemory :: "pem_Block \<Rightarrow> string"
  x509_MarshalPKCS1PrivateKey :: "rsa_PrivateKey \<Rightarrow> string"
  tls_X509KeyPair :: "string \<Rightarrow> string \<Rightarrow> error + tls_Certificate"

definition NewCertificateStore :: CertificateStore where
  "NewCertificateStore =
     \<lparr>cache = Map.empty,
      generator = \<lparr>keySize = 2048, organization = ''MITM Security Proxy'', validityDays = 30,
                   rootCert = None, rootKey = None\<rparr>\<rparr>"

text \<open>
  \<open>rand.Int(rand.Reader, max)\<close> returns a uniform value below \<open>max\<close> and not below 0: here the number
  drawn from the source, reduced modulo the bound.
\<close>

definition rand_Int :: "mint_env \<Rightarrow> int \<Rightarrow> error + int" where
  "rand_Int M bound = (case rand_Reader M of Inl err \<Rightarrow> Inl err | Inr r \<Rightarrow> Inr (int r mod bound))"

text \<open>
  \<open>time.Duration\<close> is an \<open>int64\<close> count of nanoseconds, so the product for the validity
  wraps at 64 bits; \<open>Time.Add\<close> moves an instant by the signed value.
\<close>

definition Hour :: "64 word" where
  "Hour = 3600000000000"

definition Time_Add :: "int \<Rightarrow> 64 word \<Rightarrow> int" where
  "Time_Add t d = t + sint d"

definition KeyUsageDigitalSignature :: "64 word" where
  "KeyUsageDigitalSignature = push_bit 0 1"

definition KeyUsageKeyEncipherment :: "64 word" where
  "KeyUsageKeyEncipherment = push_bit 2 1"

definition validateConfiguration :: "CertificateGenerator \<Rightarrow> error option" where
  "validateConfiguration g =
     (if rootCert g = None \<or> rootKey g = None
      then Some (Errorf ''root certificate or key not initialised'' [] None)
      else None)"

definition generatePrivateKey :: "mint_env \<Rightarrow> CertificateGenerator \<Rightarrow> error + rsa_PrivateKey" where
  "generatePrivateKey M g =
     (case rsa_GenerateKey M (keySize g) of
        Inl err \<Rightarrow> Inl (Errorf ''RSA key generation error: %w'' [] (Some err))
      | Inr key \<Rightarrow> Inr key)"

definition createCertificateTemplate ::
  "mint_env \<Rightarrow> CertificateGenerator \<Rightarrow> string \<Rightarrow> error + x509_Certificate" where
  "createCertificateTemplate M g hostname =
     (case rand_Int M (push_bit 62 1) of
        Inl err \<Rightarrow> Inl (Errorf ''serial number generation error: %w'' [] (Some err))
      | Inr serialNumber \<Rightarrow>
          (let now = time_Now M in
           Inr \<lparr>Raw = [],
                SerialNumber = serialNumber,
                Subject = \<lparr>CommonName = hostname, Organization = [organization g]\<rparr>,
                NotBefore = Time_Add now (- Hour),
                NotAfter = Time_Add now (word_of_int (validityDays g) * 24 * Hour),
                KeyUsage = KeyUsageKeyEncipherment OR KeyUsageDigitalSignature,
                ExtKeyUsages = [ExtKeyUsageServerAuth],
                BasicConstraintsValid = True,
                DNSNames = [hostname],
                cert_PublicKey = None\<rparr>))"

text \<open>
  \<open>createTLSCertificate\<close> signs the template under the generator's root and returns a
  pointer to a new \<open>tls.Certificate\<close>. It is called after \<open>validateConfiguration\<close> only;
  with a nil root \<open>x509.CreateCertificate\<close> cannot sign.
\<close>

definition createTLSCertificate ::
  "mint_env \<Rightarrow> CertificateGenerator \<Rightarrow> x509_Certificate \<Rightarrow> rsa_PrivateKey \<Rightarrow>
   tls_Certificate list \<Rightarrow> (error + ref) \<times> tls_Certificate list" where
  "createTLSCertificate M g template privKey heap =
     (case (rootCert g, rootKey g) of
        (Some parent, Some signer) \<Rightarrow>
          (case x509_CreateCertificate M template parent (PublicKey privKey) signer of
             Inl err \<Rightarrow> (Inl (Errorf ''certificate creation error: %w'' [] (Some err)), heap)
           | Inr certDER \<Rightarrow>
               (let certPEM = pem_EncodeToMemory M \<lparr>Type = ''CERTIFICATE'', Bytes = certDER\<rparr>;
                    keyPEM = pem_EncodeToMemory M
                      \<lparr>Type = ''RSA PRIVATE KEY'', Bytes = x509_MarshalPKCS1PrivateKey M privKey\<rparr>
                in case tls_X509KeyPair M certPEM keyPEM of
                     Inl err \<Rightarrow> (Inl (Errorf ''TLS certificate creation error: %w'' [] (Some err)), heap)
                   | Inr tlsCert \<Rightarrow> (Inr (length heap), heap @ [tlsCert])))
      | _ \<Rightarrow> (Inl (LibError ''x509: nil parent or signer''), heap))"

definition generateCertificate ::
  "mint_env \<Rightarrow> CertificateGenerator \<Rightarrow> string \<Rightarrow> tls_Certificate list \<Rightarrow>
   (error + ref) \<times> tls_Certificate list" where
  "generateCertificate M g hostname heap =
     (case validateConfiguration g of
        Some err \<Rightarrow> (Inl err, heap)
      | None \<Rightarrow>
          (case generatePrivateKey M g of
             Inl err \<Rightarrow> (Inl err, heap)
           | Inr privKey \<Rightarrow>
               (case createCertificateTemplate M g hostname of
                  Inl err \<Rightarrow> (Inl err, heap)
                | Inr template \<Rightarrow> createTLSCertificate M g template privKey heap)))"

text \<open>
  The two methods of the store. Each critical section (the read under \<open>RLock\<close>, the
  re-check, mint and insert under \<open>Lock\<close>) runs as a whole; a call takes the store and
  the allocated objects and returns them with its result.
\<close>

definition createAndStoreCertificate ::
  "mint_env \<Rightarrow> store_state \<Rightarrow> string \<Rightarrow> (error + ref) \<times> store_state" where
  "createAndStoreCertificate M st hostname =
     (case cache (fst st) hostname of
        Some cert \<Rightarrow> (Inr cert, st)
      | None \<Rightarrow>
          (case generateCertificate M (generator (fst st)) hostname (snd st) of
             (Inl err, heap') \<Rightarrow>
               (Inl (Errorf ''certificate generation error: %w'' [] (Some err)), (fst st, heap'))
           | (Inr cert, heap') \<Rightarrow>
               (Inr cert, ((fst st)\<lparr>cache := (cache (fst st))(hostname \<mapsto> cert)\<rparr>, heap'))))"

definition GetOrCreateCertificate ::
  "mint_env \<Rightarrow> store_state \<Rightarrow> string \<Rightarrow> (error + ref) \<times> store_state" where
  "GetOrCreateCertificate M st hostname =
     (case cache (fst st) hostname of
        Some cert \<Rightarrow> (Inr cert, st)
      | None \<Rightarrow> createAndStoreCertificate M st hostname)"

subsection \<open>A concrete mint\<close>

definition demo_leaf_key :: rsa_PrivateKey where
  "demo_leaf_key = RSAPrivateKey (RSAPublicKey 2773 17) 157"

definition demo_mint_env :: mint_env where
  "demo_mint_env =
     \<lparr>rsa_GenerateKey = (\<lambda>bits. Inr demo_leaf_key),
      rand_Reader = Inr (2 ^ 62 + 7),
      time_Now = 1700000000000000000,
      x509_CreateCertificate = (\<lambda>template parent pub signer.
         Inr (''der:'' @ CommonName (Subject template))),
      pem_EncodeToMemory = (\<lambda>block. Type block @ ''|'' @ Bytes block),
      x509_MarshalPKCS1PrivateKey = (\<lambda>key. ''pkcs1''),
      tls_X509KeyPair = (\<lambda>certPEM keyPEM.
         Inr \<lparr>Certificate = [certPEM], tls_PrivateKey = demo_leaf_key\<rparr>)\<rparr>"

text \<open>The store of \<open>NewCertificateStore\<close> whose generator has been given a root.\<close>

definition demo_store :: CertificateStore where
  "demo_store =
     NewCertificateStore\<lparr>generator :=
       (generator NewCertificateStore)\<lparr>rootCert := Some demo_root_cert,
                                        rootKey := Some demo_root_key\<rparr>\<rparr>"

section \<open>Client connections\<close>

text \<open>
  What a handler can read from its client: the bytes that will arrive, and what follows
  them. The client closes its sending side (\<open>EOF\<close>), the connection breaks (\<open>Reset\<close>),
  or the client sends nothing more and keeps the connection open (\<open>Idle\<close>). At \<open>Idle\<close> a
  read with no deadline never returns; with a read deadline set it returns the timeout
  error. \<open>readDeadline\<close> is what \<open>SetReadDeadline\<close> last set, in seconds from the call;
  \<open>None\<close> is the zero time, no deadline. The bytes of \<open>incoming\<close> are taken to arrive
  before any deadline. The \<open>bufio.Reader\<close> over the connection is modelled together
  with the connection.
\<close>

datatype stream_end = EOF | Reset | Idle

record client =
  incoming :: string
  finale :: stream_end
  readDeadline :: "nat option"

definition io_EOF :: error where
  "io_EOF = LibError ''EOF''"

definition ErrDeadlineExceeded :: error where
  "ErrDeadlineExceeded = LibError ''i/o timeout''"

definition ECONNRESET :: error where
  "ECONNRESET = LibError ''connection reset by peer''"

text \<open>The error of a read that finds no byte; \<open>None\<close> when the read never returns.\<close>

definition read_end :: "client \<Rightarrow> error option" where
  "read_end c =
     (case finale c of
        EOF \<Rightarrow> Some io_EOF
      | Reset \<Rightarrow> Some ECONNRESET
      | Idle \<Rightarrow> (case readDeadline c of None \<Rightarrow> None | Some d \<Rightarrow> Some ErrDeadlineExceeded))"

text \<open>
  \<open>Reader.ReadString(delim)\<close>: the bytes up to and including the first \<open>delim\<close>; when
  the input ends first, the bytes read so far and the error. The outer \<open>option\<close> is
  \<open>None\<close> when the call never returns.
\<close>

definition ReadString :: "client \<Rightarrow> char \<Rightarrow> ((string \<times> error option) \<times> client) option" where
  "ReadString c delim =
     (case cut delim (incoming c) of
        Some (line, rest) \<Rightarrow> Some ((line @ [delim], None), c\<lparr>incoming := rest\<rparr>)
      | None \<Rightarrow>
          (case read_end c of
             None \<Rightarrow> None
           | Some err \<Rightarrow> Some ((incoming c, Some err), c\<lparr>incoming := []\<rparr>)))"

text \<open>
  \<open>Reader.Read(buffer)\<close> with a buffer of \<open>n\<close> bytes: up to \<open>n\<close> of the bytes at hand and
  no error, or no byte and the error. How the bytes are cut into reads does not matter
  to the loop that calls it.
\<close>

definition Read :: "client \<Rightarrow> nat \<Rightarrow> ((string \<times> error option) \<times> client) option" where
  "Read c n =
     (if incoming c \<noteq> []
      then Some ((take n (incoming c), None), c\<lparr>incoming := drop n (incoming c)\<rparr>)
      else (case read_end c of None \<Rightarrow> None | Some err \<Rightarrow> Some (([], Some err), c)))"

text \<open>
  What a handler has done when it returns: closed the client without reaching an
  origin, failed to dial the address, written bytes to the origin it dialed at the
  address (the response relay that follows is not modelled), or entered TLS
  interception for a CONNECT target (not modelled further). Writes to the origin are
  taken to succeed.
\<close>

datatype outcome =
    Closed
  | DialFailed string
  | Forwarded string string
  | TLSBridge string

section \<open>The handler of \<open>ProxyServer\<close>: \<open>ConnectionHandler\<close>\<close>

text \<open>
  Field names carry a prefix where two structs of the source share a name or the name
  is an Isabelle keyword: \<open>hdr_name\<close>, \<open>hdr_value\<close> are \<open>HeaderLine.name\<close> and \<open>.value\<close>;
  \<open>rd_method\<close> etc. are the fields of \<open>RequestData\<close>.
\<close>

record HeaderLine =
  hdr_name :: string
  hdr_value :: string

record RequestData =
  rd_method :: string
  rd_targetURL :: string
  rd_httpVersion :: string
  rd_headers :: "HeaderLine list"
  rd_body :: string

record ConnectionHandler =
  clientConnection :: client
  requestData :: RequestData

definition NewConnectionHandler :: "client \<Rightarrow> ConnectionHandler" where
  "NewConnectionHandler conn =
     \<lparr>clientConnection = conn,
      requestData = \<lparr>rd_method = [], rd_targetURL = [], rd_httpVersion = [],
                     rd_headers = [], rd_body = []\<rparr>\<rparr>"

definition readRequestLine ::
  "go_env \<Rightarrow> ConnectionHandler \<Rightarrow> (error option \<times> ConnectionHandler) option" where
  "readRequestLine L h =
     (case ReadString (clientConnection h) LF of
        None \<Rightarrow> None
      | Some ((line, err), c') \<Rightarrow>
          (case err of
             Some e \<Rightarrow> Some (Some e, h\<lparr>clientConnection := c'\<rparr>)
           | None \<Rightarrow>
               (case Fields L (TrimSpace L line) of
                  [p0, p1, p2] \<Rightarrow>
                    Some (None, h\<lparr>clientConnection := c',
                                   requestData := (requestData h)
                                     \<lparr>rd_method := p0, rd_targetURL := p1, rd_httpVersion := p2\<rparr>\<rparr>)
                | _ \<Rightarrow> Some (Some (Errorf ''malformed request'' [] None),
                             h\<lparr>clientConnection := c'\<rparr>))))"

definition parseHeaderLine :: "go_env \<Rightarrow> string \<Rightarrow> HeaderLine option" where
  "parseHeaderLine L line =
     (case SplitN line (CHR '':'') 2 of
        [p0, p1] \<Rightarrow>
          (let name = TrimSpace L p0; val = TrimSpace L p1
           in if ToLower L name = ''proxy-connection'' then None
              else Some \<lparr>hdr_name = name, hdr_value = val\<rparr>)
      | _ \<Rightarrow> None)"

text \<open>
  The loop of \<open>parseHeaders\<close>, on the connection and the header list it appends to.
\<close>

function parseHeaders_loop ::
  "go_env \<Rightarrow> client \<Rightarrow> HeaderLine list \<Rightarrow> (error option \<times> client \<times> HeaderLine list) option" where
  "parseHeaders_loop L c hs =
     (case ReadString c LF of
        None \<Rightarrow> None
      | Some ((line, err), c') \<Rightarrow>
          (case err of
             Some e \<Rightarrow> Some (Some e, c', hs)
           | None \<Rightarrow>
               (if TrimSpace L line = [] then Some (None, c', hs)
                else parseHeaders_loop L c'
                       (case parseHeaderLine L (TrimSpace L line) of
                          None \<Rightarrow> hs
                        | Some header \<Rightarrow> hs @ [header]))))"
  by pat_completeness auto

lemma cut_shorter: "cut sep s = Some (a, b) \<Longrightarrow> length b < length s"
  by (induction s arbitrary: a b) (auto split: if_splits option.splits)

lemma ReadString_shorter:
  "ReadString c delim = Some ((line, None), c') \<Longrightarrow> length (incoming c') < length (incoming c)"
  by (auto simp: ReadString_def split: option.splits dest: cut_shorter)

termination parseHeaders_loop
  by (relation "measure (\<lambda>(L, c, hs). length (incoming c))") (auto dest: ReadString_shorter)

definition parseHeaders ::
  "go_env \<Rightarrow> ConnectionHandler \<Rightarrow> (error option \<times> ConnectionHandler) option" where
  "parseHeaders L h =
     (case parseHeaders_loop L (clientConnection h) (rd_headers (requestData h)) of
        None \<Rightarrow> None
      | Some (err, c', hs) \<Rightarrow>
          Some (err, h\<lparr>clientConnection := c',
                        requestData := (requestData h)\<lparr>rd_headers := hs\<rparr>\<rparr>))"

text \<open>
  The loop of \<open>readRequestBody\<close>, with its buffer of 8192 bytes: every chunk read is
  appended; \<open>io.EOF\<close> ends the loop with nil, any other error is returned.
\<close>

function readRequestBody_loop ::
  "client \<Rightarrow> string \<Rightarrow> (error option \<times> client \<times> string) option" where
  "readRequestBody_loop c acc =
     (case Read c 8192 of
        None \<Rightarrow> None
      | Some ((chunk, err), c') \<Rightarrow>
          (let acc' = (if length chunk > 0 then acc @ chunk else acc)
           in case err of
                Some e \<Rightarrow> (if e = io_EOF then Some (None, c', acc') else Some (Some e, c', acc'))
              | None \<Rightarrow> readRequestBody_loop c' acc'))"
  by pat_completeness auto

lemma Read_shorter:
  "Read c n = Some ((chunk, None), c') \<Longrightarrow> 0 < n \<Longrightarrow> length (incoming c') < length (incoming c)"
  by (auto simp: Read_def split: if_splits option.splits)

termination readRequestBody_loop
  by (relation "measure (\<lambda>(c, acc). length (incoming c))") (auto dest: Read_shorter)

text \<open>
  \<open>readRequestBody\<close> sets a read deadline of five seconds for the loop; the deferred
  call resets it to none on every return.
\<close>

definition readRequestBody ::
  "ConnectionHandler \<Rightarrow> (error option \<times> ConnectionHandler) option" where
  "readRequestBody h =
     (if rd_method (requestData h) = ''GET'' \<or> rd_method (requestData h) = ''HEAD''
      then Some (None, h)
      else (case readRequestBody_loop ((clientConnection h)\<lparr>readDeadline := Some 5\<rparr>)
                   (rd_body (requestData h)) of
              None \<Rightarrow> None
            | Some (err, c', b) \<Rightarrow>
                Some (err, h\<lparr>clientConnection := c'\<lparr>readDeadline := None\<rparr>,
                              requestData := (requestData h)\<lparr>rd_body := b\<rparr>\<rparr>)))"

definition parseIncomingRequest ::
  "go_env \<Rightarrow> ConnectionHandler \<Rightarrow> (error option \<times> ConnectionHandler) option" where
  "parseIncomingRequest L h =
     (case readRequestLine L h of
        None \<Rightarrow> None
      | Some (Some err, h1) \<Rightarrow> Some (Some err, h1)
      | Some (None, h1) \<Rightarrow>
          (case parseHeaders L h1 of
             None \<Rightarrow> None
           | Some (Some err, h2) \<Rightarrow> Some (Some err, h2)
           | Some (None, h2) \<Rightarrow>
               (case readRequestBody h2 of
                  None \<Rightarrow> None
                | Some (Some err, h3) \<Rightarrow> Some (Some err, h3)
                | Some (None, h3) \<Rightarrow> Some (None, h3))))"

definition hasHeader :: "go_env \<Rightarrow> ConnectionHandler \<Rightarrow> string \<Rightarrow> bool" where
  "hasHeader L h name =
     (let lowerName = ToLower L name
      in list_ex (\<lambda>header. ToLower L (hdr_name header) = lowerName) (rd_headers (requestData h)))"

text \<open>The address \<open>establishConnection\<close> dials.\<close>

definition establishConnection_address :: "URL \<Rightarrow> string" where
  "establishConnection_address targetURL =
     (let host = Hostname targetURL;
          port = (if Port targetURL = [] then ''80'' else Port targetURL)
      in JoinHostPort host port)"

text \<open>The bytes \<open>sendRequest\<close> writes to the origin: the built request, then the body.\<close>

definition sendRequest :: "go_env \<Rightarrow> ConnectionHandler \<Rightarrow> URL \<Rightarrow> string" where
  "sendRequest L h targetURL =
     (rd_method (requestData h) @ '' / '' @ rd_httpVersion (requestData h) @ CRLF)
     @ concat (map (\<lambda>header. hdr_name header @ '': '' @ hdr_value header @ CRLF)
                 (rd_headers (requestData h)))
     @ (if \<not> hasHeader L h ''Host'' then ''Host: '' @ Host targetURL @ CRLF else [])
     @ CRLF
     @ (if length (rd_body (requestData h)) > 0 then rd_body (requestData h) else [])"

definition forwardToDestination :: "go_env \<Rightarrow> ConnectionHandler \<Rightarrow> outcome" where
  "forwardToDestination L h =
     (case url_Parse L (rd_targetURL (requestData h)) of
        Inl err \<Rightarrow> Closed
      | Inr targetURL \<Rightarrow>
          (case net_Dial L (establishConnection_address targetURL) of
             Some err \<Rightarrow> DialFailed (establishConnection_address targetURL)
           | None \<Rightarrow> Forwarded (establishConnection_address targetURL) (sendRequest L h targetURL)))"

text \<open>\<open>ProcessRequest\<close> on a new handler for the connection; \<open>None\<close> when it never returns.\<close>

definition ProcessRequest :: "go_env \<Rightarrow> client \<Rightarrow> outcome option" where
  "ProcessRequest L conn =
     (case parseIncomingRequest L (NewConnectionHandler conn) of
        None \<Rightarrow> None
      | Some (Some err, h) \<Rightarrow> Some Closed
      | Some (None, h) \<Rightarrow> Some (forwardToDestination L h))"

section \<open>The handler of \<open>ProxyListener\<close>: \<open>RequestProcessor\<close>\<close>

text \<open>
  \<open>reader\<close> is the processor's buffered reader over \<open>clientConn\<close>. \<open>requestBody\<close> is
  written by no function of the source. The fields of \<open>ConnectionDetails\<close> carry the
  prefix \<open>cd\<close>; its \<open>headers\<close> is a Go map.
\<close>

record RequestProcessor =
  reader :: client
  requestMethod :: string
  requestTarget :: string
  protocolVer :: string
  requestBody :: string

record ConnectionDetails =
  cd_host :: string
  cd_port :: string
  cd_path :: string
  cd_headers :: "string \<rightharpoonup> string"

definition parseRequestLine :: "RequestProcessor \<Rightarrow> string \<Rightarrow> error option \<times> RequestProcessor" where
  "parseRequestLine p line =
     (case SplitN line (CHR '' '') 3 of
        [c0, c1, c2] \<Rightarrow>
          (None, p\<lparr>requestMethod := c0, requestTarget := c1, protocolVer := c2\<rparr>)
      | _ \<Rightarrow> (Some (Errorf ''malformed request: %s'' [line] None), p))"

definition parseInitialRequest ::
  "go_env \<Rightarrow> RequestProcessor \<Rightarrow> (error option \<times> RequestProcessor) option" where
  "parseInitialRequest L p =
     (case ReadString (reader p) LF of
        None \<Rightarrow> None
      | Some ((requestLine, err), c') \<Rightarrow>
          (if err \<noteq> None \<or> TrimSpace L requestLine = []
           then Some (Some (Errorf ''cannot read request: %v'' [] err), p\<lparr>reader := c'\<rparr>)
           else Some (parseRequestLine (p\<lparr>reader := c'\<rparr>) (TrimSpace L requestLine))))"

definition isTLSConnection :: "go_env \<Rightarrow> RequestProcessor \<Rightarrow> bool" where
  "isTLSConnection L p = (ToUpper L (requestMethod p) = ''CONNECT'')"

definition parseHeader :: "go_env \<Rightarrow> string \<Rightarrow> string \<times> string" where
  "parseHeader L line =
     (case SplitN (TrimSpace L line) (CHR '':'') 2 of
        [p0, p1] \<Rightarrow> (ToLower L (TrimSpace L p0), TrimSpace L p1)
      | _ \<Rightarrow> ([], []))"

function collectHeaders_loop ::
  "go_env \<Rightarrow> client \<Rightarrow> (string \<rightharpoonup> string) \<Rightarrow> ((string \<rightharpoonup> string) \<times> client) option" where
  "collectHeaders_loop L c headers =
     (case ReadString c LF of
        None \<Rightarrow> None
      | Some ((line, err), c') \<Rightarrow>
          (if err \<noteq> None \<or> TrimSpace L line = [] then Some (headers, c')
           else collectHeaders_loop L c'
                  (case parseHeader L line of
                     (key, val) \<Rightarrow> if key \<noteq> [] then headers(key \<mapsto> val) else headers)))"
  by pat_completeness auto

termination collectHeaders_loop
  by (relation "measure (\<lambda>(L, c, headers). length (incoming c))") (auto dest: ReadString_shorter)

definition collectHeaders ::
  "go_env \<Rightarrow> RequestProcessor \<Rightarrow> ((string \<rightharpoonup> string) \<times> RequestProcessor) option" where
  "collectHeaders L p =
     (case collectHeaders_loop L (reader p) Map.empty of
        None \<Rightarrow> None
      | Some (headers, c') \<Rightarrow> Some (headers, p\<lparr>reader := c'\<rparr>))"

definition determinePort :: "URL \<Rightarrow> string" where
  "determinePort targetURL =
     (if Port targetURL \<noteq> [] then Port targetURL
      else if Scheme targetURL = ''https'' then ''443''
      else ''80'')"

definition determinePath :: "URL \<Rightarrow> string" where
  "determinePath targetURL =
     (if RequestURI targetURL \<noteq> [] then RequestURI targetURL else ''/'')"

text \<open>
  The bytes \<open>sendModifiedRequest\<close> writes. \<open>range\<close> visits the keys of the map in an
  order the runtime chooses, here \<open>range_order\<close>.
\<close>

definition sendModifiedRequest :: "go_env \<Rightarrow> RequestProcessor \<Rightarrow> ConnectionDetails \<Rightarrow> string" where
  "sendModifiedRequest L p conn =
     (requestMethod p @ '' '' @ cd_path conn @ '' '' @ protocolVer p @ CRLF)
     @ concat (map (\<lambda>key. case cd_headers conn key of
                             None \<Rightarrow> []
                           | Some val \<Rightarrow>
                               if ToLower L key \<noteq> ''proxy-connection''
                               then key @ '': '' @ val @ CRLF else [])
                 (range_order L (cd_headers conn)))
     @ (if cd_headers conn ''host'' = None then ''Host: '' @ cd_host conn @ CRLF else [])
     @ CRLF
     @ (if length (requestBody p) > 0 then requestBody p else [])"

definition forwardHTTPRequest :: "go_env \<Rightarrow> RequestProcessor \<Rightarrow> ConnectionDetails \<Rightarrow> outcome" where
  "forwardHTTPRequest L p conn =
     (case net_Dial L (JoinHostPort (cd_host conn) (cd_port conn)) of
        Some err \<Rightarrow> DialFailed (JoinHostPort (cd_host conn) (cd_port conn))
      | None \<Rightarrow>
          Forwarded (JoinHostPort (cd_host conn) (cd_port conn)) (sendModifiedRequest L p conn))"

definition handlePlainConnection :: "go_env \<Rightarrow> RequestProcessor \<Rightarrow> outcome option" where
  "handlePlainConnection L p =
     (case collectHeaders L p of
        None \<Rightarrow> None
      | Some (headers, p') \<Rightarrow>
          (case url_Parse L (requestTarget p') of
             Inl err \<Rightarrow> Some Closed
           | Inr targetURL \<Rightarrow>
               Some (forwardHTTPRequest L p'
                       \<lparr>cd_host = Hostname targetURL,
                        cd_port = determinePort targetURL,
                        cd_path = determinePath targetURL,
                        cd_headers = headers\<rparr>)))"

definition handleClient :: "go_env \<Rightarrow> client \<Rightarrow> outcome option" where
  "handleClient L clientConn =
     (case parseInitialRequest L
             \<lparr>reader = clientConn, requestMethod = [], requestTarget = [], protocolVer = [],
              requestBody = []\<rparr> of
        None \<Rightarrow> None
      | Some (Some err, p) \<Rightarrow> Some Closed
      | Some (None, p) \<Rightarrow>
          (if isTLSConnection L p then Some (TLSBridge (requestTarget p))
           else handlePlainConnection L p))"

subsection \<open>A concrete runtime\<close>

text \<open>
  The Unicode fallbacks leave their argument as it is (they are not reached on ASCII
  input), every dial succeeds, \<open>range\<close> visits the keys in a fixed order, and
  \<open>url.Parse\<close> is given on three URLs by what Go returns for them.
\<close>

definition demo_url_Parse :: "string \<Rightarrow> error + URL" where
  "demo_url_Parse s =
     (if s = ''http://example.test/index.html''
      then Inr \<lparr>Scheme = ''http'', Host = ''example.test'', Hostname = ''example.test'',
                Port = [], RequestURI = ''/index.html''\<rparr>
      else if s = ''https://example.test/''
      then Inr \<lparr>Scheme = ''https'', Host = ''example.test'', Hostname = ''example.test'',
                Port = [], RequestURI = ''/''\<rparr>
      else if s = ''http://example.test/submit''
      then Inr \<lparr>Scheme = ''http'', Host = ''example.test'', Hostname = ''example.test'',
                Port = [], RequestURI = ''/submit''\<rparr>
      else Inl (LibError ''parse error''))"

definition demo_go_env :: go_env where
  "demo_go_env =
     \<lparr>Map_unicode_ToLower = (\<lambda>s. s), Map_unicode_ToUpper = (\<lambda>s. s),
      TrimFunc_IsSpace = (\<lambda>s. s), TrimRightFunc_IsSpace = (\<lambda>s. s),
      FieldsFunc_IsSpace = (\<lambda>s. [s]),
      url_Parse = demo_url_Parse,
      net_Dial = (\<lambda>address. None),
      range_order = (\<lambda>m. filter (\<lambda>k. m k \<noteq> None)
                          [''host'', ''proxy-connection'', ''content-length'', ''accept''])\<rparr>"

text \<open>A client that sends the given lines, each ended by CR LF, and then the body.\<close>

definition request_bytes :: "string list \<Rightarrow> string \<Rightarrow> string" where
  "request_bytes lines b = concat (map (\<lambda>l. l @ CRLF) lines) @ b"

subsection \<open>Forwarded header lines, in the specification's words\<close>

text \<open>
  The header section of a serialized request is one line \<open>name: value CRLF\<close> per
  header. A name \<^emph>\<open>is Proxy-Connection\<close> when it equals \<open>Proxy-Connection\<close> after both are
  lowercased.
\<close>

definition header_lines :: "(string \<times> string) list \<Rightarrow> string" where
  "header_lines hs = concat (map (\<lambda>(n, v). n @ '': '' @ v @ CRLF) hs)"

definition is_Proxy_Connection :: "go_env \<Rightarrow> string \<Rightarrow> bool" where
  "is_Proxy_Connection L n = (ToLower L n = ToLower L ''Proxy-Connection'')"

section \<open>Properties of the CA material loader\<close>

lemmas loader_defs =
  LoadCA_def InitializeCertificateAuthority_def loadCertificateFiles_def readSecureFile_def
  processCertificateData_def parseCertificateBlock_def parsePrivateKeyBlock_def

lemmas demo_ca_defs =
  demo_ca_env_def demo_ReadFile_def demo_Decode_def demo_ParseCertificate_def
  demo_ParsePKCS1PrivateKey_def

lemma demo_load_ok:
  "LoadCA demo_ca_env certManager ''ca.crt'' ''ca.key'' =
     (None, \<lparr>rootCertificate = Some demo_root_cert, privateKey = Some demo_root_key\<rparr>)"
  by (simp add: loader_defs demo_ca_defs certManager_def)

lemma demo_load_empty_key:
  "fst (LoadCA demo_ca_env certManager ''ca.crt'' ''empty.key'') =
     Some (Errorf ''error loading certificate files: %w'' []
       (Some (Errorf ''cannot read key: %w'' []
         (Some (Errorf ''file %s is empty'' [''empty.key''] None)))))"
  by (simp add: loader_defs demo_ca_defs certManager_def)

lemma readSecureFile_Inr:
  "(readSecureFile W path = Inr content) = (os_ReadFile W path = Inr content \<and> content \<noteq> [])"
  by (cases "os_ReadFile W path") (auto simp: readSecureFile_def)

lemma loadCertificateFiles_Inr:
  "(loadCertificateFiles W certPath keyPath = Inr (cd, kd)) =
     (os_ReadFile W certPath = Inr cd \<and> cd \<noteq> [] \<and> os_ReadFile W keyPath = Inr kd \<and> kd \<noteq> [])"
proof -
  have "(loadCertificateFiles W certPath keyPath = Inr (cd, kd)) =
          (readSecureFile W certPath = Inr cd \<and> readSecureFile W keyPath = Inr kd)"
    by (cases "readSecureFile W certPath"; cases "readSecureFile W keyPath")
       (auto simp: loadCertificateFiles_def)
  then show ?thesis by (simp add: readSecureFile_Inr)
qed

lemma parseCertificateBlock_Inr:
  "(parseCertificateBlock W data = Inr cert) =
     (\<exists>b. pem_Decode W data = (Some b, []) \<and> Type b = ''CERTIFICATE'' \<and>
          x509_ParseCertificate W (Bytes b) = Inr cert)"
proof (cases "pem_Decode W data")
  case (Pair ob rest)
  show ?thesis
  proof (cases ob)
    case None
    with Pair show ?thesis by (simp add: parseCertificateBlock_def)
  next
    case (Some b)
    with Pair show ?thesis
      by (cases "x509_ParseCertificate W (Bytes b)") (auto simp: parseCertificateBlock_def)
  qed
qed

lemma parsePrivateKeyBlock_Inr:
  "(parsePrivateKeyBlock W data = Inr key) =
     (\<exists>b. pem_Decode W data = (Some b, []) \<and> Type b = ''RSA PRIVATE KEY'' \<and>
          x509_ParsePKCS1PrivateKey W (Bytes b) = Inr key)"
proof (cases "pem_Decode W data")
  case (Pair ob rest)
  show ?thesis
  proof (cases ob)
    case None
    with Pair show ?thesis by (simp add: parsePrivateKeyBlock_def)
  next
    case (Some b)
    with Pair show ?thesis
      by (cases "x509_ParsePKCS1PrivateKey W (Bytes b)") (auto simp: parsePrivateKeyBlock_def)
  qed
qed

lemma processCertificateData_None:
  "(fst (processCertificateData W cm cd kd) = None) =
     (\<exists>cert key. parseCertificateBlock W cd = Inr cert \<and> parsePrivateKeyBlock W kd = Inr key)"
  by (cases "parseCertificateBlock W cd"; cases "parsePrivateKeyBlock W kd")
     (simp_all add: processCertificateData_def)

lemma processCertificateData_snd:
  "parseCertificateBlock W cd = Inr cert \<Longrightarrow> parsePrivateKeyBlock W kd = Inr key \<Longrightarrow>
   processCertificateData W cm cd kd = (None, cm\<lparr>rootCertificate := Some cert, privateKey := Some key\<rparr>)"
  by (simp add: processCertificateData_def)

lemma processCertificateData_failed:
  "processCertificateData W cm cd kd = (Some e, cm') \<Longrightarrow> cm' = cm"
  by (cases "parseCertificateBlock W cd"; cases "parsePrivateKeyBlock W kd")
     (simp_all add: processCertificateData_def)

lemma LoadCA_loads:
  assumes "loads W certPath keyPath cert key"
  shows "LoadCA W cm certPath keyPath =
           (None, cm\<lparr>rootCertificate := Some cert, privateKey := Some key\<rparr>)"
proof -
  from assms obtain cd kd where
    files: "loadCertificateFiles W certPath keyPath = Inr (cd, kd)" and
    c: "parseCertificateBlock W cd = Inr cert" and k: "parsePrivateKeyBlock W kd = Inr key"
    unfolding loads_def loadCertificateFiles_Inr parseCertificateBlock_Inr parsePrivateKeyBlock_Inr
    by blast
  show ?thesis
    by (simp add: LoadCA_def InitializeCertificateAuthority_def files
          processCertificateData_snd [OF c k])
qed

lemma LoadCA_None_loads:
  assumes "fst (LoadCA W cm certPath keyPath) = None"
  shows "\<exists>cert key. loads W certPath keyPath cert key"
proof (cases "loadCertificateFiles W certPath keyPath")
  case (Inl e)
  with assms show ?thesis
    by (simp add: LoadCA_def InitializeCertificateAuthority_def)
next
  case (Inr files)
  obtain cd kd where f: "files = (cd, kd)" by (cases files)
  from assms Inr f have "fst (processCertificateData W cm cd kd) = None"
    by (cases "processCertificateData W cm cd kd")
       (auto simp: LoadCA_def InitializeCertificateAuthority_def split: option.splits)
  then obtain cert key where
    c: "parseCertificateBlock W cd = Inr cert" and k: "parsePrivateKeyBlock W kd = Inr key"
    unfolding processCertificateData_None by blast
  from Inr f have files:
    "os_ReadFile W certPath = Inr cd \<and> cd \<noteq> [] \<and> os_ReadFile W keyPath = Inr kd \<and> kd \<noteq> []"
    by (simp add: loadCertificateFiles_Inr)
  from c obtain cb where
    "pem_Decode W cd = (Some cb, []) \<and> Type cb = ''CERTIFICATE'' \<and>
     x509_ParseCertificate W (Bytes cb) = Inr cert"
    unfolding parseCertificateBlock_Inr by blast
  moreover from k obtain kb where
    "pem_Decode W kd = (Some kb, []) \<and> Type kb = ''RSA PRIVATE KEY'' \<and>
     x509_ParsePKCS1PrivateKey W (Bytes kb) = Inr key"
    unfolding parsePrivateKeyBlock_Inr by blast
  ultimately have "loads W certPath keyPath cert key"
    unfolding loads_def using files by blast
  then show ?thesis by blast
qed

lemma never_Inl: "(\<forall>e. x \<noteq> Inl e) = (\<exists>v. x = Inr v)"
  by (cases x) auto

lemma loads_iff:
  "(\<exists>cert key. loads W certPath keyPath cert key) =
   (\<not> (unreadable_or_empty W certPath \<or> unreadable_or_empty W keyPath \<or>
      single_pem_block W (file_content W certPath) = None \<or>
      single_pem_block W (file_content W keyPath) = None \<or>
      (\<exists>b. single_pem_block W (file_content W certPath) = Some b \<and> Type b \<noteq> ''CERTIFICATE'') \<or>
      (\<exists>b. single_pem_block W (file_content W keyPath) = Some b \<and> Type b \<noteq> ''RSA PRIVATE KEY'') \<or>
      (\<exists>b e. single_pem_block W (file_content W certPath) = Some b \<and>
             x509_ParseCertificate W (Bytes b) = Inl e) \<or>
      (\<exists>b e. single_pem_block W (file_content W keyPath) = Some b \<and>
             x509_ParsePKCS1PrivateKey W (Bytes b) = Inl e)))"
proof (cases "os_ReadFile W certPath")
  case (Inl e)
  then show ?thesis by (simp add: loads_def unreadable_or_empty_def)
next
  case c: (Inr cd)
  show ?thesis
  proof (cases "os_ReadFile W keyPath")
    case (Inl e)
    then show ?thesis by (simp add: loads_def unreadable_or_empty_def)
  next
    case k: (Inr kd)
    obtain cb crest where dc: "pem_Decode W cd = (cb, crest)" by (cases "pem_Decode W cd")
    obtain kb krest where dk: "pem_Decode W kd = (kb, krest)" by (cases "pem_Decode W kd")
    show ?thesis
      using c k dc dk
      by (cases cb; cases kb)
         (auto simp: loads_def unreadable_or_empty_def file_content_def single_pem_block_def
               never_Inl)
  qed
qed

text \<open>
  C3. \<open>LoadCA\<close> returns an error exactly when, for the certificate file or the key
  file, the file is unreadable or empty, or it does not decode as exactly one PEM block
  with no trailing bytes, or the block's type is not \<open>CERTIFICATE\<close> (certificate file)
  or not \<open>RSA PRIVATE KEY\<close> (key file), or X.509 / PKCS#1 parsing of the block fails;
  otherwise it returns nil and the manager holds the parsed certificate and key.
\<close>

theorem LoadCA_error_iff:
  "(fst (LoadCA W cm certPath keyPath) \<noteq> None) =
     (unreadable_or_empty W certPath \<or> unreadable_or_empty W keyPath \<or>
      single_pem_block W (file_content W certPath) = None \<or>
      single_pem_block W (file_content W keyPath) = None \<or>
      (\<exists>b. single_pem_block W (file_content W certPath) = Some b \<and> Type b \<noteq> ''CERTIFICATE'') \<or>
      (\<exists>b. single_pem_block W (file_content W keyPath) = Some b \<and> Type b \<noteq> ''RSA PRIVATE KEY'') \<or>
      (\<exists>b e. single_pem_block W (file_content W certPath) = Some b \<and>
             x509_ParseCertificate W (Bytes b) = Inl e) \<or>
      (\<exists>b e. single_pem_block W (file_content W keyPath) = Some b \<and>
             x509_ParsePKCS1PrivateKey W (Bytes b) = Inl e))
   \<and> (fst (LoadCA W cm certPath keyPath) = None \<longrightarrow>
        (\<exists>cb kb cert key.
            single_pem_block W (file_content W certPath) = Some cb \<and>
            single_pem_block W (file_content W keyPath) = Some kb \<and>
            x509_ParseCertificate W (Bytes cb) = Inr cert \<and>
            x509_ParsePKCS1PrivateKey W (Bytes kb) = Inr key \<and>
            snd (LoadCA W cm certPath keyPath) =
              cm\<lparr>rootCertificate := Some cert, privateKey := Some key\<rparr>))"
proof (intro conjI impI)
  have "(fst (LoadCA W cm certPath keyPath) = None) = (\<exists>cert key. loads W certPath keyPath cert key)"
    using LoadCA_None_loads [of W cm certPath keyPath] LoadCA_loads [of W certPath keyPath _ _ cm]
    by auto
  then show "(fst (LoadCA W cm certPath keyPath) \<noteq> None) =
     (unreadable_or_empty W certPath \<or> unreadable_or_empty W keyPath \<or>
      single_pem_block W (file_content W certPath) = None \<or>
      single_pem_block W (file_content W keyPath) = None \<or>
      (\<exists>b. single_pem_block W (file_content W certPath) = Some b \<and> Type b \<noteq> ''CERTIFICATE'') \<or>
      (\<exists>b. single_pem_block W (file_content W keyPath) = Some b \<and> Type b \<noteq> ''RSA PRIVATE KEY'') \<or>
      (\<exists>b e. single_pem_block W (file_content W certPath) = Some b \<and>
             x509_ParseCertificate W (Bytes b) = Inl e) \<or>
      (\<exists>b e. single_pem_block W (file_content W keyPath) = Some b \<and>
             x509_ParsePKCS1PrivateKey W (Bytes b) = Inl e))"
    unfolding loads_iff by simp
next
  assume "fst (LoadCA W cm certPath keyPath) = None"
  then obtain cert key where l: "loads W certPath keyPath cert key"
    using LoadCA_None_loads by blast
  from l obtain cd kd cb kb where
    "os_ReadFile W certPath = Inr cd" "os_ReadFile W keyPath = Inr kd"
    "pem_Decode W cd = (Some cb, [])" "pem_Decode W kd = (Some kb, [])"
    "x509_ParseCertificate W (Bytes cb) = Inr cert"
    "x509_ParsePKCS1PrivateKey W (Bytes kb) = Inr key"
    unfolding loads_def by blast
  then have "single_pem_block W (file_content W certPath) = Some cb \<and>
            single_pem_block W (file_content W keyPath) = Some kb \<and>
            x509_ParseCertificate W (Bytes cb) = Inr cert \<and>
            x509_ParsePKCS1PrivateKey W (Bytes kb) = Inr key"
    by (simp add: single_pem_block_def file_content_def)
  with LoadCA_loads [OF l, of cm]
  show "\<exists>cb kb cert key.
            single_pem_block W (file_content W certPath) = Some cb \<and>
            single_pem_block W (file_content W keyPath) = Some kb \<and>
            x509_ParseCertificate W (Bytes cb) = Inr cert \<and>
            x509_ParsePKCS1PrivateKey W (Bytes kb) = Inr key \<and>
            snd (LoadCA W cm certPath keyPath) =
              cm\<lparr>rootCertificate := Some cert, privateKey := Some key\<rparr>"
    by auto
qed

theorem LoadCA_error_iff_witness:
  "fst (LoadCA demo_ca_env certManager ''ca.crt'' ''ca.key'') = None \<and>
   (\<exists>cb kb cert key.
      single_pem_block demo_ca_env (file_content demo_ca_env ''ca.crt'') = Some cb \<and>
      single_pem_block demo_ca_env (file_content demo_ca_env ''ca.key'') = Some kb \<and>
      x509_ParseCertificate demo_ca_env (Bytes cb) = Inr cert \<and>
      x509_ParsePKCS1PrivateKey demo_ca_env (Bytes kb) = Inr key \<and>
      snd (LoadCA demo_ca_env certManager ''ca.crt'' ''ca.key'') =
        certManager\<lparr>rootCertificate := Some cert, privateKey := Some key\<rparr>) \<and>
   unreadable_or_empty demo_ca_env ''empty.key'' \<and>
   fst (LoadCA demo_ca_env certManager ''ca.crt'' ''empty.key'') \<noteq> None"
proof -
  have ok: "fst (LoadCA demo_ca_env certManager ''ca.crt'' ''ca.key'') = None"
    by (simp add: demo_load_ok)
  have bad: "unreadable_or_empty demo_ca_env ''empty.key''"
    by (simp add: unreadable_or_empty_def demo_ca_defs)
  note good = LoadCA_error_iff [of demo_ca_env certManager "''ca.crt''" "''ca.key''"]
  note fail = LoadCA_error_iff [of demo_ca_env certManager "''ca.crt''" "''empty.key''"]
  from good ok have ex: "\<exists>cb kb cert key.
      single_pem_block demo_ca_env (file_content demo_ca_env ''ca.crt'') = Some cb \<and>
      single_pem_block demo_ca_env (file_content demo_ca_env ''ca.key'') = Some kb \<and>
      x509_ParseCertificate demo_ca_env (Bytes cb) = Inr cert \<and>
      x509_ParsePKCS1PrivateKey demo_ca_env (Bytes kb) = Inr key \<and>
      snd (LoadCA demo_ca_env certManager ''ca.crt'' ''ca.key'') =
        certManager\<lparr>rootCertificate := Some cert, privateKey := Some key\<rparr>"
    by blast
  from fail bad have err: "fst (LoadCA demo_ca_env certManager ''ca.crt'' ''empty.key'') \<noteq> None"
    by blast
  from ok ex bad err show ?thesis by blast
qed

text \<open>
  C10. When \<open>LoadCA\<close> returns an error, whatever the reason, the certificate manager
  is as it was before the call: \<open>processCertificateData\<close> assigns both fields only after
  the certificate and the key have both parsed, and no earlier step assigns any.
\<close>

theorem LoadCA_failure_keeps_manager:
  assumes "fst (LoadCA W cm certPath keyPath) \<noteq> None"
  shows "snd (LoadCA W cm certPath keyPath) = cm"
proof (cases "loadCertificateFiles W certPath keyPath")
  case (Inl e)
  then show ?thesis by (simp add: LoadCA_def InitializeCertificateAuthority_def)
next
  case (Inr files)
  obtain cd kd where f: "files = (cd, kd)" by (cases files)
  obtain r cm' where p: "processCertificateData W cm cd kd = (r, cm')"
    by (cases "processCertificateData W cm cd kd")
  from assms Inr f p obtain e where e: "r = Some e"
    by (cases r) (auto simp: LoadCA_def InitializeCertificateAuthority_def)
  with p have "cm' = cm" by (auto dest: processCertificateData_failed)
  with Inr f p e show ?thesis
    by (simp add: LoadCA_def InitializeCertificateAuthority_def)
qed

theorem LoadCA_failure_keeps_manager_witness:
  "fst (LoadCA demo_ca_env \<lparr>rootCertificate = None, privateKey = None\<rparr> ''ca.crt'' ''garbage.key'')
     \<noteq> None \<and>
   snd (LoadCA demo_ca_env \<lparr>rootCertificate = None, privateKey = None\<rparr> ''ca.crt'' ''garbage.key'')
     = \<lparr>rootCertificate = None, privateKey = None\<rparr>"
proof -
  have failed:
    "fst (LoadCA demo_ca_env \<lparr>rootCertificate = None, privateKey = None\<rparr> ''ca.crt'' ''garbage.key'')
       \<noteq> None"
    by (simp add: loader_defs demo_ca_defs)
  from failed LoadCA_failure_keeps_manager [OF failed] show ?thesis by simp
qed

text \<open>
  C4, as the specification states it: a certificate whose public key is not the
  private key's makes loading fail. The loader has no such comparison. Here the two
  files parse on their own, the keys differ, and \<open>LoadCA\<close> returns nil and publishes
  the mismatched pair.
\<close>

theorem LoadCA_accepts_mismatched_key:
  "cert_PublicKey demo_root_cert \<noteq> Some (PublicKey demo_other_key) \<and>
   LoadCA demo_ca_env certManager ''ca.crt'' ''other.key'' =
     (None, \<lparr>rootCertificate = Some demo_root_cert, privateKey = Some demo_other_key\<rparr>)"
  by (simp add: loader_defs demo_ca_defs certManager_def demo_root_cert_def demo_other_key_def)

text \<open>
  C4, amended. The loader compares no keys: for every pair of files that each read as
  non-empty, decode as one PEM block of the expected type with nothing after it, and
  parse, \<open>LoadCA\<close> returns nil and the manager holds the parsed certificate and the
  parsed key, whether or not the certificate's public key is the private key's.
\<close>

theorem LoadCA_succeeds_when_both_parse:
  assumes "os_ReadFile W certPath = Inr cd" and "cd \<noteq> []"
    and "os_ReadFile W keyPath = Inr kd" and "kd \<noteq> []"
    and "pem_Decode W cd = (Some cb, [])" and "Type cb = ''CERTIFICATE''"
    and "x509_ParseCertificate W (Bytes cb) = Inr cert"
    and "pem_Decode W kd = (Some kb, [])" and "Type kb = ''RSA PRIVATE KEY''"
    and "x509_ParsePKCS1PrivateKey W (Bytes kb) = Inr key"
  shows "LoadCA W cm certPath keyPath =
           (None, cm\<lparr>rootCertificate := Some cert, privateKey := Some key\<rparr>)"
proof -
  from assms have "loads W certPath keyPath cert key"
    unfolding loads_def by blast
  then show ?thesis by (rule LoadCA_loads)
qed

theorem LoadCA_succeeds_when_both_parse_witness:
  "cert_PublicKey demo_root_cert \<noteq> Some (PublicKey demo_other_key) \<and>
   os_ReadFile demo_ca_env ''ca.crt'' = Inr ''pem:cert'' \<and>
   os_ReadFile demo_ca_env ''other.key'' = Inr ''pem:other'' \<and>
   pem_Decode demo_ca_env ''pem:cert'' = (Some \<lparr>Type = ''CERTIFICATE'', Bytes = ''der:root''\<rparr>, []) \<and>
   pem_Decode demo_ca_env ''pem:other'' = (Some \<lparr>Type = ''RSA PRIVATE KEY'', Bytes = ''der:other''\<rparr>, []) \<and>
   x509_ParseCertificate demo_ca_env ''der:root'' = Inr demo_root_cert \<and>
   x509_ParsePKCS1PrivateKey demo_ca_env ''der:other'' = Inr demo_other_key \<and>
   LoadCA demo_ca_env certManager ''ca.crt'' ''other.key'' =
     (None, certManager\<lparr>rootCertificate := Some demo_root_cert, privateKey := Some demo_other_key\<rparr>)"
proof -
  have r1: "os_ReadFile demo_ca_env ''ca.crt'' = Inr ''pem:cert''"
    and r2: "os_ReadFile demo_ca_env ''other.key'' = Inr ''pem:other''"
    and d1: "pem_Decode demo_ca_env ''pem:cert'' =
               (Some \<lparr>Type = ''CERTIFICATE'', Bytes = ''der:root''\<rparr>, [])"
    and d2: "pem_Decode demo_ca_env ''pem:other'' =
               (Some \<lparr>Type = ''RSA PRIVATE KEY'', Bytes = ''der:other''\<rparr>, [])"
    and p1: "x509_ParseCertificate demo_ca_env (Bytes \<lparr>Type = ''CERTIFICATE'', Bytes = ''der:root''\<rparr>)
               = Inr demo_root_cert"
    and p2: "x509_ParsePKCS1PrivateKey demo_ca_env
               (Bytes \<lparr>Type = ''RSA PRIVATE KEY'', Bytes = ''der:other''\<rparr>) = Inr demo_other_key"
    by (simp_all add: demo_ca_defs)
  have differ: "cert_PublicKey demo_root_cert \<noteq> Some (PublicKey demo_other_key)"
    by (simp add: demo_root_cert_def demo_other_key_def)
  note LoadCA_succeeds_when_both_parse [OF r1 _ r2 _ d1 _ p1 d2 _ p2, of certManager]
  with r1 r2 d1 d2 p1 p2 differ show ?thesis by simp
qed

section \<open>Properties of the certificate mint and cache\<close>

lemmas mint_defs =
  generateCertificate_def validateConfiguration_def generatePrivateKey_def
  createCertificateTemplate_def createTLSCertificate_def rand_Int_def

lemmas demo_mint_defs = demo_mint_env_def demo_store_def NewCertificateStore_def

lemma createTLSCertificate_heap:
  assumes "createTLSCertificate M g t k heap = (r, heap')"
  shows "(case r of Inl e \<Rightarrow> heap' = heap
          | Inr c \<Rightarrow> c = length heap \<and> (\<exists>obj. heap' = heap @ [obj]))"
  using assms
  by (auto simp: createTLSCertificate_def Let_def split: option.splits sum.splits)

lemma generateCertificate_heap:
  assumes "generateCertificate M g H heap = (r, heap')"
  shows "(case r of Inl e \<Rightarrow> heap' = heap
          | Inr c \<Rightarrow> c = length heap \<and> (\<exists>obj. heap' = heap @ [obj]))"
proof (cases "validateConfiguration g")
  case (Some e)
  with assms show ?thesis by (auto simp: generateCertificate_def)
next
  case None
  show ?thesis
  proof (cases "generatePrivateKey M g")
    case (Inl e)
    with None assms show ?thesis by (auto simp: generateCertificate_def)
  next
    case (Inr key)
    show ?thesis
    proof (cases "createCertificateTemplate M g H")
      case (Inl e)
      with None Inr assms show ?thesis by (auto simp: generateCertificate_def)
    next
      case t: (Inr t)
      with None Inr assms have "createTLSCertificate M g t key heap = (r, heap')"
        by (simp add: generateCertificate_def)
      then show ?thesis by (rule createTLSCertificate_heap)
    qed
  qed
qed

text \<open>What a call of \<open>createAndStoreCertificate\<close> does to the store and the objects.\<close>

lemma createAndStoreCertificate_cases:
  assumes "createAndStoreCertificate M st H = (r, st')"
  shows "(\<exists>c. cache (fst st) H = Some c \<and> r = Inr c \<and> st' = st) \<or>
         (\<exists>e. cache (fst st) H = None \<and> r = Inl e \<and> st' = st) \<or>
         (\<exists>obj. cache (fst st) H = None \<and> r = Inr (length (snd st)) \<and>
            st' = ((fst st)\<lparr>cache := (cache (fst st))(H \<mapsto> length (snd st))\<rparr>, snd st @ [obj]))"
proof (cases "cache (fst st) H")
  case (Some c)
  with assms show ?thesis by (auto simp: createAndStoreCertificate_def)
next
  case None
  obtain g heap' where gen: "generateCertificate M (generator (fst st)) H (snd st) = (g, heap')"
    by (cases "generateCertificate M (generator (fst st)) H (snd st)")
  note h = generateCertificate_heap [OF gen]
  show ?thesis
  proof (cases g)
    case (Inl e)
    with h have "heap' = snd st" by simp
    with assms None gen Inl show ?thesis by (auto simp: createAndStoreCertificate_def)
  next
    case (Inr c)
    with h obtain obj where "c = length (snd st)" "heap' = snd st @ [obj]" by auto
    with assms None gen Inr show ?thesis by (auto simp: createAndStoreCertificate_def)
  qed
qed

lemma GetOrCreateCertificate_cases:
  assumes "GetOrCreateCertificate M st H = (r, st')"
  shows "(\<exists>c. cache (fst st) H = Some c \<and> r = Inr c \<and> st' = st) \<or>
         (\<exists>e. cache (fst st) H = None \<and> r = Inl e \<and> st' = st) \<or>
         (\<exists>obj. cache (fst st) H = None \<and> r = Inr (length (snd st)) \<and>
            st' = ((fst st)\<lparr>cache := (cache (fst st))(H \<mapsto> length (snd st))\<rparr>, snd st @ [obj]))"
proof (cases "cache (fst st) H")
  case (Some c)
  with assms show ?thesis by (auto simp: GetOrCreateCertificate_def)
next
  case None
  with assms have "createAndStoreCertificate M st H = (r, st')"
    by (simp add: GetOrCreateCertificate_def)
  then show ?thesis by (rule createAndStoreCertificate_cases)
qed

lemma GetOrCreateCertificate_hit:
  "cache (fst st) H = Some c \<Longrightarrow> GetOrCreateCertificate M st H = (Inr c, st)"
  by (simp add: GetOrCreateCertificate_def)

lemma GetOrCreateCertificate_success_cached:
  assumes "GetOrCreateCertificate M st H = (Inr c, st')"
  shows "cache (fst st') H = Some c"
  using GetOrCreateCertificate_cases [OF assms] by auto

lemma GetOrCreateCertificate_other_keys:
  assumes "GetOrCreateCertificate M st H = (r, st')" and "K \<noteq> H"
  shows "cache (fst st') K = cache (fst st) K"
  using GetOrCreateCertificate_cases [OF assms(1)] assms(2) by auto

lemma GetOrCreateCertificate_keeps_entries:
  assumes "GetOrCreateCertificate M st H = (r, st')" and "cache (fst st) K = Some p"
  shows "cache (fst st') K = Some p"
  using GetOrCreateCertificate_cases [OF assms(1)] assms(2) by auto

lemma GetOrCreateCertificate_keeps_objects:
  assumes "GetOrCreateCertificate M st H = (r, st')" and "p < length (snd st)"
  shows "p < length (snd st') \<and> snd st' ! p = snd st ! p"
  using GetOrCreateCertificate_cases [OF assms(1)] assms(2) by (auto simp: nth_append)

lemma demo_first_call:
  "GetOrCreateCertificate demo_mint_env (demo_store, []) ''Example.test'' =
     (Inr 0, (demo_store\<lparr>cache := [''Example.test'' \<mapsto> 0]\<rparr>,
              [\<lparr>Certificate = [''CERTIFICATE|der:Example.test''], tls_PrivateKey = demo_leaf_key\<rparr>]))"
  by (simp add: GetOrCreateCertificate_def createAndStoreCertificate_def mint_defs demo_mint_defs)

lemma GetOrCreateCertificate_allocated:
  assumes "GetOrCreateCertificate M st H = (Inr c, st')"
    and "\<forall>K p. cache (fst st) K = Some p \<longrightarrow> p < length (snd st)"
  shows "c < length (snd st') \<and> (\<forall>K p. cache (fst st') K = Some p \<longrightarrow> p < length (snd st'))"
  using GetOrCreateCertificate_cases [OF assms(1)] assms(2)
  by (auto simp: less_Suc_eq split: if_splits)

lemma GetOrCreateCertificate_miss_mints:
  assumes "GetOrCreateCertificate M st H = (Inr c, st')" and "cache (fst st) H = None"
  shows "c = length (snd st) \<and> (\<exists>obj. snd st' = snd st @ [obj])"
  using GetOrCreateCertificate_cases [OF assms(1)] assms(2)
  by auto

text \<open>
  C1. When a call of \<open>GetOrCreateCertificate\<close> for \<open>H\<close> returns a bundle, that bundle
  is the entry the cache now holds under \<open>H\<close>: on a miss it is the one object the call
  allocated, and in a store whose entries all point to allocated objects it is an
  allocated object and the entries still all do. A second call for \<open>H\<close> then returns the
  same pointer, whatever the mint would now produce, and leaves the store and the
  allocated objects as they are (no second mint). No call, successful or not, removes
  or redirects a cache entry or changes an object allocated before it.
\<close>

theorem GetOrCreateCertificate_same_bundle:
  "(GetOrCreateCertificate M st H = (Inr c, st') \<longrightarrow>
      cache (fst st') H = Some c \<and>
      (cache (fst st) H = None \<longrightarrow>
         c = length (snd st) \<and> (\<exists>obj. snd st' = snd st @ [obj])) \<and>
      ((\<forall>K p. cache (fst st) K = Some p \<longrightarrow> p < length (snd st)) \<longrightarrow>
         c < length (snd st') \<and>
         (\<forall>K p. cache (fst st') K = Some p \<longrightarrow> p < length (snd st'))) \<and>
      GetOrCreateCertificate M' st' H = (Inr c, st')) \<and>
   (\<forall>K p. cache (fst st) K = Some p \<longrightarrow>
      cache (fst (snd (GetOrCreateCertificate M st H))) K = Some p) \<and>
   (\<forall>p. p < length (snd st) \<longrightarrow>
      p < length (snd (snd (GetOrCreateCertificate M st H))) \<and>
      snd (snd (GetOrCreateCertificate M st H)) ! p = snd st ! p)"
proof (intro conjI impI allI)
  assume a: "GetOrCreateCertificate M st H = (Inr c, st')"
  then show cached: "cache (fst st') H = Some c"
    by (rule GetOrCreateCertificate_success_cached)
  then show "GetOrCreateCertificate M' st' H = (Inr c, st')"
    by (rule GetOrCreateCertificate_hit)
  {
    assume "cache (fst st) H = None"
    from GetOrCreateCertificate_miss_mints [OF a this]
    show "c = length (snd st)" and "\<exists>obj. snd st' = snd st @ [obj]" by simp_all
  }
  {
    assume wf: "\<forall>K p. cache (fst st) K = Some p \<longrightarrow> p < length (snd st)"
    from GetOrCreateCertificate_allocated [OF a wf]
    show "c < length (snd st')" by simp
    fix K p
    assume "cache (fst st') K = Some p"
    with GetOrCreateCertificate_allocated [OF a wf]
    show "p < length (snd st')" by blast
  }
next
  fix K p
  assume "cache (fst st) K = Some p"
  with GetOrCreateCertificate_keeps_entries [of M st H "fst (GetOrCreateCertificate M st H)"
      "snd (GetOrCreateCertificate M st H)" K p]
  show "cache (fst (snd (GetOrCreateCertificate M st H))) K = Some p" by simp
next
  fix p
  assume p: "p < length (snd st)"
  from GetOrCreateCertificate_keeps_objects [of M st H "fst (GetOrCreateCertificate M st H)"
      "snd (GetOrCreateCertificate M st H)" p] p
  show "p < length (snd (snd (GetOrCreateCertificate M st H)))"
    and "snd (snd (GetOrCreateCertificate M st H)) ! p = snd st ! p" by simp_all
qed

theorem GetOrCreateCertificate_same_bundle_witness:
  "GetOrCreateCertificate demo_mint_env (demo_store, []) ''Example.test'' =
     (Inr 0, (demo_store\<lparr>cache := [''Example.test'' \<mapsto> 0]\<rparr>,
              [\<lparr>Certificate = [''CERTIFICATE|der:Example.test''], tls_PrivateKey = demo_leaf_key\<rparr>])) \<and>
   cache (demo_store\<lparr>cache := [''Example.test'' \<mapsto> 0]\<rparr>) ''Example.test'' = Some 0 \<and>
   (0 :: nat) < length
     [\<lparr>Certificate = [''CERTIFICATE|der:Example.test''], tls_PrivateKey = demo_leaf_key\<rparr>] \<and>
   GetOrCreateCertificate (demo_mint_env\<lparr>rand_Reader := Inr 99\<rparr>)
       (demo_store\<lparr>cache := [''Example.test'' \<mapsto> 0]\<rparr>,
        [\<lparr>Certificate = [''CERTIFICATE|der:Example.test''], tls_PrivateKey = demo_leaf_key\<rparr>])
       ''Example.test'' =
     (Inr 0, (demo_store\<lparr>cache := [''Example.test'' \<mapsto> 0]\<rparr>,
              [\<lparr>Certificate = [''CERTIFICATE|der:Example.test''], tls_PrivateKey = demo_leaf_key\<rparr>]))"
proof -
  let ?st1 = "(demo_store\<lparr>cache := [''Example.test'' \<mapsto> 0]\<rparr>,
              [\<lparr>Certificate = [''CERTIFICATE|der:Example.test''], tls_PrivateKey = demo_leaf_key\<rparr>])"
  have wf: "\<forall>K p. cache (fst (demo_store, [])) K = Some p \<longrightarrow> p < length (snd (demo_store, []))"
    by (simp add: demo_mint_defs)
  note t = GetOrCreateCertificate_same_bundle
    [of demo_mint_env "(demo_store, [])" "''Example.test''" 0 ?st1
        "demo_mint_env\<lparr>rand_Reader := Inr 99\<rparr>", THEN conjunct1, rule_format, OF demo_first_call]
  from t have cached: "cache (fst ?st1) ''Example.test'' = Some 0" by blast
  from t wf have alloc: "0 < length (snd ?st1)" by blast
  from t have again: "GetOrCreateCertificate (demo_mint_env\<lparr>rand_Reader := Inr 99\<rparr>) ?st1
      ''Example.test'' = (Inr 0, ?st1)" by blast
  from demo_first_call cached alloc again show ?thesis by simp
qed


lemma sint_30_days: "sint (word_of_int 30 * 24 * Hour :: 64 word) = 2592000000000000"
  by (simp add: Hour_def)

lemma KeyUsage_bits: "KeyUsageKeyEncipherment OR KeyUsageDigitalSignature = (5 :: 64 word)"
  by (simp add: KeyUsageKeyEncipherment_def KeyUsageDigitalSignature_def)








text \<open>
  C5, amended. The cache is keyed by the hostname as it is passed, byte for byte: a call
  of \<open>GetOrCreateCertificate\<close> for \<open>H\<close> that returns a tlsCert leaves that tlsCert under
  the key \<open>H\<close>, and the entry under every other key, a differently cased spelling of
  \<open>H\<close> among them, as it was.
\<close>

theorem GetOrCreateCertificate_keyed_by_given_hostname:
  assumes "GetOrCreateCertificate M st H = (Inr c, st')"
  shows "cache (fst st') H = Some c \<and> (\<forall>K. K \<noteq> H \<longrightarrow> cache (fst st') K = cache (fst st) K)"
  using GetOrCreateCertificate_success_cached [OF assms]
        GetOrCreateCertificate_other_keys [OF assms]
  by blast

theorem GetOrCreateCertificate_keyed_by_given_hostname_witness:
  "GetOrCreateCertificate demo_mint_env (demo_store, []) ''Example.test'' =
     (Inr 0, snd (GetOrCreateCertificate demo_mint_env (demo_store, []) ''Example.test'')) \<and>
   cache (fst (snd (GetOrCreateCertificate demo_mint_env (demo_store, []) ''Example.test'')))
     ''Example.test'' = Some 0 \<and>
   cache (fst (snd (GetOrCreateCertificate demo_mint_env (demo_store, []) ''Example.test'')))
     ''example.test'' = None"
proof -
  have first: "GetOrCreateCertificate demo_mint_env (demo_store, []) ''Example.test'' =
     (Inr 0, snd (GetOrCreateCertificate demo_mint_env (demo_store, []) ''Example.test''))"
    by (simp add: demo_first_call)
  have empty: "cache (fst (demo_store, [])) ''example.test'' = None"
    by (simp add: demo_mint_defs)
  have "''example.test'' \<noteq> ''Example.test''" by simp
  with GetOrCreateCertificate_keyed_by_given_hostname [OF first] first empty
  show ?thesis by metis
qed

text \<open>
  C5, as the specification states it: the cache is keyed by the lowercased hostname, so a
  call for \<open>H\<close> and a call for the lowercased \<open>H\<close> return the same bundle. No function
  lowercases the key. Here the first call mints for \<open>Example.test\<close> and returns object
  0; the call for its lowercased form finds no entry, mints again and returns object 1.
\<close>

theorem GetOrCreateCertificate_distinguishes_case:
  "ToLower demo_go_env ''Example.test'' = ''example.test'' \<and>
   fst (GetOrCreateCertificate demo_mint_env (demo_store, []) ''Example.test'') = Inr 0 \<and>
   fst (GetOrCreateCertificate demo_mint_env
          (snd (GetOrCreateCertificate demo_mint_env (demo_store, []) ''Example.test''))
          (ToLower demo_go_env ''Example.test'')) = Inr 1"
proof -
  have l: "ToLower demo_go_env ''Example.test'' = ''example.test''"
    by code_simp
  have "fst (GetOrCreateCertificate demo_mint_env
          (snd (GetOrCreateCertificate demo_mint_env (demo_store, []) ''Example.test''))
          ''example.test'') = Inr 1"
    unfolding demo_first_call
    by (simp add: GetOrCreateCertificate_def createAndStoreCertificate_def mint_defs demo_mint_defs)
  with l show ?thesis by (simp add: demo_first_call)
qed

section \<open>Properties of the plain forwarding paths\<close>

lemma ToLower_Proxy_Connection: "ToLower L ''Proxy-Connection'' = ''proxy-connection''"
  by code_simp

lemma parseHeaderLine_not_Proxy_Connection:
  assumes "parseHeaderLine L line = Some header"
  shows "\<not> is_Proxy_Connection L (hdr_name header)"
  using assms
  by (auto simp: parseHeaderLine_def is_Proxy_Connection_def ToLower_Proxy_Connection Let_def
           split: list.splits if_splits)

text \<open>The header loop keeps the list free of Proxy-Connection.\<close>

lemma parseHeaders_loop_invariant:
  assumes "parseHeaders_loop L c hs = Some (err, c', hs')"
    and "list_all (\<lambda>x. \<not> is_Proxy_Connection L (hdr_name x)) hs"
  shows "list_all (\<lambda>x. \<not> is_Proxy_Connection L (hdr_name x)) hs'"
  using assms
proof (induction L c hs rule: parseHeaders_loop.induct)
  case (1 L c hs)
  show ?case
  proof (cases "ReadString c LF")
    case None
    with "1.prems" show ?thesis by simp
  next
    case (Some r)
    obtain line e c1 where r: "r = ((line, e), c1)" by (cases r) auto
    show ?thesis
    proof (cases e)
      case (Some x)
      with "1.prems" \<open>ReadString c LF = Some r\<close> r show ?thesis by simp
    next
      case None
      show ?thesis
      proof (cases "TrimSpace L line = []")
        case True
        with "1.prems" \<open>ReadString c LF = Some r\<close> r None show ?thesis by simp
      next
        case False
        let ?hs = "(case parseHeaderLine L (TrimSpace L line) of
                      None \<Rightarrow> hs | Some header \<Rightarrow> hs @ [header])"
        from "1.prems"(1) \<open>ReadString c LF = Some r\<close> r None False
        have rec: "parseHeaders_loop L c1 ?hs = Some (err, c', hs')" by simp
        have inv: "list_all (\<lambda>x. \<not> is_Proxy_Connection L (hdr_name x)) ?hs"
          using "1.prems"(2)
          by (auto split: option.splits dest: parseHeaderLine_not_Proxy_Connection)
        from "1.IH" [OF \<open>ReadString c LF = Some r\<close> r [symmetric] _ None False rec inv]
        show ?thesis by simp
      qed
    qed
  qed
qed

lemma readRequestLine_headers:
  assumes "readRequestLine L h = Some (err, h')"
  shows "rd_headers (requestData h') = rd_headers (requestData h)"
  using assms
  by (auto simp: readRequestLine_def split: option.splits list.splits)

lemma parseHeaders_invariant:
  assumes "parseHeaders L h = Some (err, h')"
    and "list_all (\<lambda>x. \<not> is_Proxy_Connection L (hdr_name x)) (rd_headers (requestData h))"
  shows "list_all (\<lambda>x. \<not> is_Proxy_Connection L (hdr_name x)) (rd_headers (requestData h'))"
proof (cases "parseHeaders_loop L (clientConnection h) (rd_headers (requestData h))")
  case None
  with assms(1) show ?thesis by (simp add: parseHeaders_def)
next
  case (Some r)
  obtain e c' hs where r: "r = (e, c', hs)" by (cases r) auto
  from Some r assms(1) have h': "rd_headers (requestData h') = hs"
    by (auto simp: parseHeaders_def)
  from parseHeaders_loop_invariant [OF Some [unfolded r] assms(2)] h' show ?thesis by simp
qed

lemma readRequestBody_headers:
  assumes "readRequestBody h = Some (err, h')"
  shows "rd_headers (requestData h') = rd_headers (requestData h)"
  using assms
  by (auto simp: readRequestBody_def split: option.splits if_splits)

lemma parseIncomingRequest_invariant:
  assumes "parseIncomingRequest L (NewConnectionHandler c) = Some (None, h)"
  shows "list_all (\<lambda>x. \<not> is_Proxy_Connection L (hdr_name x)) (rd_headers (requestData h))"
proof -
  from assms obtain h1 where
    s1: "readRequestLine L (NewConnectionHandler c) = Some (None, h1)"
    by (auto simp: parseIncomingRequest_def split: option.splits)
  from assms s1 obtain h2 where s2: "parseHeaders L h1 = Some (None, h2)"
    by (auto simp: parseIncomingRequest_def split: option.splits)
  from assms s1 s2 have s3: "readRequestBody h2 = Some (None, h)"
    by (auto simp: parseIncomingRequest_def split: option.splits)
  from readRequestLine_headers [OF s1] have "rd_headers (requestData h1) = []"
    by (simp add: NewConnectionHandler_def)
  then have "list_all (\<lambda>x. \<not> is_Proxy_Connection L (hdr_name x)) (rd_headers (requestData h1))"
    by simp
  from parseHeaders_invariant [OF s2 this] readRequestBody_headers [OF s3]
  show ?thesis by simp
qed

lemma ProcessRequest_Forwarded:
  assumes "ProcessRequest L c = Some (Forwarded addr out)"
  shows "\<exists>h u. parseIncomingRequest L (NewConnectionHandler c) = Some (None, h) \<and>
               url_Parse L (rd_targetURL (requestData h)) = Inr u \<and>
               net_Dial L (establishConnection_address u) = None \<and>
               addr = establishConnection_address u \<and> out = sendRequest L h u"
  using assms
  by (auto simp: ProcessRequest_def forwardToDestination_def split: option.splits sum.splits)

lemma header_lines_append: "header_lines (xs @ ys) = header_lines xs @ header_lines ys"
  by (simp add: header_lines_def)

lemma sendRequest_layout:
  "sendRequest L h u =
     rd_method (requestData h) @ '' / '' @ rd_httpVersion (requestData h) @ CRLF
     @ header_lines (map (\<lambda>x. (hdr_name x, hdr_value x)) (rd_headers (requestData h))
                    @ (if hasHeader L h ''Host'' then [] else [(''Host'', Host u)]))
     @ CRLF @ rd_body (requestData h)"
  by (simp add: sendRequest_def header_lines_def comp_def)

lemma range_lines:
  "concat (map (\<lambda>key. case m key of
                         None \<Rightarrow> []
                       | Some val \<Rightarrow> if P key then key @ '': '' @ val @ CRLF else []) ks) =
   header_lines (map (\<lambda>k. (k, the (m k))) (filter (\<lambda>k. m k \<noteq> None \<and> P k) ks))"
  by (induction ks) (auto simp: header_lines_def split: option.splits)

lemma sendModifiedRequest_layout:
  "sendModifiedRequest L p conn =
     requestMethod p @ '' '' @ cd_path conn @ '' '' @ protocolVer p @ CRLF
     @ header_lines
         (map (\<lambda>k. (k, the (cd_headers conn k)))
            (filter (\<lambda>k. cd_headers conn k \<noteq> None \<and> ToLower L k \<noteq> ''proxy-connection'')
               (range_order L (cd_headers conn)))
          @ (if cd_headers conn ''host'' = None then [(''Host'', cd_host conn)] else []))
     @ CRLF @ requestBody p"
  by (simp add: sendModifiedRequest_def range_lines header_lines_append)
     (simp add: header_lines_def)

lemma handleClient_Forwarded:
  assumes "handleClient L c = Some (Forwarded addr out)"
  shows "\<exists>p hs p' u.
           parseInitialRequest L
             \<lparr>reader = c, requestMethod = [], requestTarget = [], protocolVer = [],
              requestBody = []\<rparr> = Some (None, p) \<and>
           \<not> isTLSConnection L p \<and>
           collectHeaders L p = Some (hs, p') \<and>
           url_Parse L (requestTarget p') = Inr u \<and>
           addr = JoinHostPort (Hostname u) (determinePort u) \<and>
           out = sendModifiedRequest L p'
                   \<lparr>cd_host = Hostname u, cd_port = determinePort u,
                    cd_path = determinePath u, cd_headers = hs\<rparr>"
  using assms
  by (auto simp: handleClient_def handlePlainConnection_def forwardHTTPRequest_def
           split: option.splits sum.splits if_splits)

text \<open>
  C8. Whatever the client sends, a request that either handler forwards consists of the
  request line, one line \<open>name: value\<close> for each header of the list below, the blank
  line and the body, and no name in that list is Proxy-Connection under
  case-insensitive comparison. For \<open>ConnectionHandler\<close> the list is the parsed headers,
  then \<open>Host\<close> if none was among them; for \<open>RequestProcessor\<close> it is the entries of the
  header map that \<open>range\<close> visits and the filter passes, then \<open>Host\<close> if the map has no
  key \<open>host\<close>.
\<close>

theorem no_Proxy_Connection_forwarded:
  "(ProcessRequest L c = Some (Forwarded addr out) \<longrightarrow>
      (\<exists>h u. parseIncomingRequest L (NewConnectionHandler c) = Some (None, h) \<and>
             url_Parse L (rd_targetURL (requestData h)) = Inr u \<and>
             out = rd_method (requestData h) @ '' / '' @ rd_httpVersion (requestData h) @ CRLF
                   @ header_lines
                       (map (\<lambda>x. (hdr_name x, hdr_value x)) (rd_headers (requestData h))
                        @ (if hasHeader L h ''Host'' then [] else [(''Host'', Host u)]))
                   @ CRLF @ rd_body (requestData h) \<and>
             (\<forall>(n, v) \<in> set (map (\<lambda>x. (hdr_name x, hdr_value x)) (rd_headers (requestData h))
                              @ (if hasHeader L h ''Host'' then [] else [(''Host'', Host u)])).
                \<not> is_Proxy_Connection L n))) \<and>
   (handleClient L c = Some (Forwarded addr out) \<longrightarrow>
      (\<exists>p hs p' u.
          parseInitialRequest L
            \<lparr>reader = c, requestMethod = [], requestTarget = [], protocolVer = [],
             requestBody = []\<rparr> = Some (None, p) \<and>
          collectHeaders L p = Some (hs, p') \<and>
          url_Parse L (requestTarget p') = Inr u \<and>
          out = requestMethod p' @ '' '' @ determinePath u @ '' '' @ protocolVer p' @ CRLF
                @ header_lines
                    (map (\<lambda>k. (k, the (hs k)))
                       (filter (\<lambda>k. hs k \<noteq> None \<and> ToLower L k \<noteq> ''proxy-connection'')
                          (range_order L hs))
                     @ (if hs ''host'' = None then [(''Host'', Hostname u)] else []))
                @ CRLF @ requestBody p' \<and>
          (\<forall>(n, v) \<in> set (map (\<lambda>k. (k, the (hs k)))
                             (filter (\<lambda>k. hs k \<noteq> None \<and> ToLower L k \<noteq> ''proxy-connection'')
                                (range_order L hs))
                           @ (if hs ''host'' = None then [(''Host'', Hostname u)] else [])).
             \<not> is_Proxy_Connection L n)))"
proof (intro conjI impI)
  assume "ProcessRequest L c = Some (Forwarded addr out)"
  from ProcessRequest_Forwarded [OF this] obtain h u where
    p: "parseIncomingRequest L (NewConnectionHandler c) = Some (None, h)" and
    u: "url_Parse L (rd_targetURL (requestData h)) = Inr u" and
    out: "out = sendRequest L h u"
    by blast
  have host: "\<not> is_Proxy_Connection L ''Host''"
    unfolding is_Proxy_Connection_def by code_simp
  from parseIncomingRequest_invariant [OF p] host
  have "\<forall>(n, v) \<in> set (map (\<lambda>x. (hdr_name x, hdr_value x)) (rd_headers (requestData h))
                              @ (if hasHeader L h ''Host'' then [] else [(''Host'', Host u)])).
                \<not> is_Proxy_Connection L n"
    by (auto simp: list_all_iff)
  with p u out sendRequest_layout [of L h u]
  show "\<exists>h u. parseIncomingRequest L (NewConnectionHandler c) = Some (None, h) \<and>
             url_Parse L (rd_targetURL (requestData h)) = Inr u \<and>
             out = rd_method (requestData h) @ '' / '' @ rd_httpVersion (requestData h) @ CRLF
                   @ header_lines
                       (map (\<lambda>x. (hdr_name x, hdr_value x)) (rd_headers (requestData h))
                        @ (if hasHeader L h ''Host'' then [] else [(''Host'', Host u)]))
                   @ CRLF @ rd_body (requestData h) \<and>
             (\<forall>(n, v) \<in> set (map (\<lambda>x. (hdr_name x, hdr_value x)) (rd_headers (requestData h))
                              @ (if hasHeader L h ''Host'' then [] else [(''Host'', Host u)])).
                \<not> is_Proxy_Connection L n)"
    by blast
next
  assume "handleClient L c = Some (Forwarded addr out)"
  from handleClient_Forwarded [OF this] obtain p hs p' u where
    p: "parseInitialRequest L
            \<lparr>reader = c, requestMethod = [], requestTarget = [], protocolVer = [],
             requestBody = []\<rparr> = Some (None, p)" and
    c: "collectHeaders L p = Some (hs, p')" and
    u: "url_Parse L (requestTarget p') = Inr u" and
    out: "out = sendModifiedRequest L p'
                   \<lparr>cd_host = Hostname u, cd_port = determinePort u,
                    cd_path = determinePath u, cd_headers = hs\<rparr>"
    by blast
  have host: "\<not> is_Proxy_Connection L ''Host''"
    unfolding is_Proxy_Connection_def by code_simp
  have "\<forall>(n, v) \<in> set (map (\<lambda>k. (k, the (hs k)))
                             (filter (\<lambda>k. hs k \<noteq> None \<and> ToLower L k \<noteq> ''proxy-connection'')
                                (range_order L hs))
                           @ (if hs ''host'' = None then [(''Host'', Hostname u)] else [])).
             \<not> is_Proxy_Connection L n"
    using host by (auto simp: is_Proxy_Connection_def ToLower_Proxy_Connection)
  with p c u out
    sendModifiedRequest_layout [of L p' "\<lparr>cd_host = Hostname u, cd_port = determinePort u,
                    cd_path = determinePath u, cd_headers = hs\<rparr>"]
  show "\<exists>p hs p' u.
          parseInitialRequest L
            \<lparr>reader = c, requestMethod = [], requestTarget = [], protocolVer = [],
             requestBody = []\<rparr> = Some (None, p) \<and>
          collectHeaders L p = Some (hs, p') \<and>
          url_Parse L (requestTarget p') = Inr u \<and>
          out = requestMethod p' @ '' '' @ determinePath u @ '' '' @ protocolVer p' @ CRLF
                @ header_lines
                    (map (\<lambda>k. (k, the (hs k)))
                       (filter (\<lambda>k. hs k \<noteq> None \<and> ToLower L k \<noteq> ''proxy-connection'')
                          (range_order L hs))
                     @ (if hs ''host'' = None then [(''Host'', Hostname u)] else []))
                @ CRLF @ requestBody p' \<and>
          (\<forall>(n, v) \<in> set (map (\<lambda>k. (k, the (hs k)))
                             (filter (\<lambda>k. hs k \<noteq> None \<and> ToLower L k \<noteq> ''proxy-connection'')
                                (range_order L hs))
                           @ (if hs ''host'' = None then [(''Host'', Hostname u)] else [])).
             \<not> is_Proxy_Connection L n)"
    by (simp del: append_assoc)
qed


lemma demo_ProcessRequest_drops_Proxy_Connection:
  "ProcessRequest demo_go_env
     \<lparr>incoming = request_bytes [''GET http://example.test/index.html HTTP/1.1'',
                                ''Proxy-Connection: keep-alive'', ''Accept: text/html'', ''''] [],
      finale = EOF, readDeadline = None\<rparr> =
   Some (Forwarded ''example.test:80''
           (request_bytes [''GET / HTTP/1.1'', ''Accept: text/html'', ''Host: example.test'', ''''] []))"
  by code_simp

lemma demo_handleClient_drops_Proxy_Connection:
  "handleClient demo_go_env
     \<lparr>incoming = request_bytes [''GET http://example.test/index.html HTTP/1.1'',
                                ''Proxy-Connection: keep-alive'', ''Accept: text/html'', ''''] [],
      finale = EOF, readDeadline = None\<rparr> =
   Some (Forwarded ''example.test:80''
           (request_bytes [''GET /index.html HTTP/1.1'', ''accept: text/html'',
                           ''Host: example.test'', ''''] []))"
  by code_simp

theorem no_Proxy_Connection_forwarded_witness:
  "ProcessRequest demo_go_env
     \<lparr>incoming = request_bytes [''GET http://example.test/index.html HTTP/1.1'',
                                ''Proxy-Connection: keep-alive'', ''Accept: text/html'', ''''] [],
      finale = EOF, readDeadline = None\<rparr> =
   Some (Forwarded ''example.test:80''
           (request_bytes [''GET / HTTP/1.1'', ''Accept: text/html'', ''Host: example.test'', ''''] [])) \<and>
   (\<exists>h (u :: URL). request_bytes [''GET / HTTP/1.1'', ''Accept: text/html'', ''Host: example.test'', ''''] [] =
            rd_method (requestData h) @ '' / '' @ rd_httpVersion (requestData h) @ CRLF
            @ header_lines
                (map (\<lambda>x. (hdr_name x, hdr_value x)) (rd_headers (requestData h))
                 @ (if hasHeader demo_go_env h ''Host'' then [] else [(''Host'', Host u)]))
            @ CRLF @ rd_body (requestData h) \<and>
          (\<forall>(n, v) \<in> set (map (\<lambda>x. (hdr_name x, hdr_value x)) (rd_headers (requestData h))
                           @ (if hasHeader demo_go_env h ''Host'' then [] else [(''Host'', Host u)])).
             \<not> is_Proxy_Connection demo_go_env n)) \<and>
   handleClient demo_go_env
     \<lparr>incoming = request_bytes [''GET http://example.test/index.html HTTP/1.1'',
                                ''Proxy-Connection: keep-alive'', ''Accept: text/html'', ''''] [],
      finale = EOF, readDeadline = None\<rparr> =
   Some (Forwarded ''example.test:80''
           (request_bytes [''GET /index.html HTTP/1.1'', ''accept: text/html'',
                           ''Host: example.test'', ''''] []))"
proof -
  note t = no_Proxy_Connection_forwarded
    [of demo_go_env
        "\<lparr>incoming = request_bytes [''GET http://example.test/index.html HTTP/1.1'',
                                ''Proxy-Connection: keep-alive'', ''Accept: text/html'', ''''] [],
          finale = EOF, readDeadline = None\<rparr>"
        "''example.test:80''"
        "request_bytes [''GET / HTTP/1.1'', ''Accept: text/html'', ''Host: example.test'', ''''] []"]
  from t demo_ProcessRequest_drops_Proxy_Connection
  have "\<exists>h (u :: URL). request_bytes [''GET / HTTP/1.1'', ''Accept: text/html'', ''Host: example.test'', ''''] [] =
            rd_method (requestData h) @ '' / '' @ rd_httpVersion (requestData h) @ CRLF
            @ header_lines
                (map (\<lambda>x. (hdr_name x, hdr_value x)) (rd_headers (requestData h))
                 @ (if hasHeader demo_go_env h ''Host'' then [] else [(''Host'', Host u)]))
            @ CRLF @ rd_body (requestData h) \<and>
          (\<forall>(n, v) \<in> set (map (\<lambda>x. (hdr_name x, hdr_value x)) (rd_headers (requestData h))
                           @ (if hasHeader demo_go_env h ''Host'' then [] else [(''Host'', Host u)])).
             \<not> is_Proxy_Connection demo_go_env n)"
    by blast
  with demo_ProcessRequest_drops_Proxy_Connection demo_handleClient_drops_Proxy_Connection
  show ?thesis by (intro conjI)
qed

section \<open>Request line, port and body on the two paths\<close>

text \<open>
  \<open>sendRequest\<close> writes the path \<open>/\<close> whatever the target URL; \<open>sendModifiedRequest\<close>
  writes the path \<open>handlePlainConnection\<close> took from \<open>determinePath\<close>.
\<close>

lemma sendRequest_request_line:
  "\<exists>rest. sendRequest L h u =
            rd_method (requestData h) @ '' / '' @ rd_httpVersion (requestData h) @ CRLF @ rest"
  by (simp add: sendRequest_def)

lemma handleClient_request_line:
  assumes "handleClient L c = Some (Forwarded addr out)"
  shows "\<exists>(p :: RequestProcessor) u rest.
           url_Parse L (requestTarget p) = Inr u \<and>
           out = requestMethod p @ '' '' @
                 (if RequestURI u = [] then ''/'' else RequestURI u) @ '' '' @
                 protocolVer p @ CRLF @ rest"
proof -
  from handleClient_Forwarded [OF assms] obtain hs p' u where
    u: "url_Parse L (requestTarget p') = Inr u" and
    out: "out = sendModifiedRequest L p'
                   \<lparr>cd_host = Hostname u, cd_port = determinePort u,
                    cd_path = determinePath u, cd_headers = hs\<rparr>"
    by blast
  from out have "\<exists>rest. out = requestMethod p' @ '' '' @
                 (if RequestURI u = [] then ''/'' else RequestURI u) @ '' '' @
                 protocolVer p' @ CRLF @ rest"
    by (simp add: sendModifiedRequest_def determinePath_def)
  with u show ?thesis by blast
qed

text \<open>
  C6, on \<open>ConnectionHandler\<close>. The client asks for \<open>http://example.test/index.html\<close>,
  whose request-URI is \<open>/index.html\<close>; the request line written to the origin is
  \<open>GET / HTTP/1.1\<close>.
\<close>

theorem ProcessRequest_request_line_loses_path:
  "map_sum id RequestURI (url_Parse demo_go_env ''http://example.test/index.html'') =
     Inr ''/index.html'' \<and>
   ProcessRequest demo_go_env
     \<lparr>incoming = request_bytes [''GET http://example.test/index.html HTTP/1.1'',
                                ''Host: example.test'', ''''] [],
      finale = EOF, readDeadline = None\<rparr> =
   Some (Forwarded ''example.test:80''
           (request_bytes [''GET / HTTP/1.1'', ''Host: example.test'', ''''] []))"
  by code_simp

lemma handleClient_request_line_demo:
  "handleClient demo_go_env
     \<lparr>incoming = request_bytes [''GET http://example.test/index.html HTTP/1.1'',
                                ''Host: example.test'', ''''] [],
      finale = EOF, readDeadline = None\<rparr> =
   Some (Forwarded ''example.test:80''
           (request_bytes [''GET /index.html HTTP/1.1'', ''host: example.test'', ''''] []))"
  by code_simp

text \<open>
  \<open>establishConnection\<close> dials port 80 whenever the URL has no port, whatever the
  scheme; \<open>determinePort\<close> looks at the scheme.
\<close>

lemma establishConnection_default_port:
  "Port u = [] \<Longrightarrow> establishConnection_address u = JoinHostPort (Hostname u) ''80''"
  by (simp add: establishConnection_address_def)

lemma determinePort_default:
  "Port u = [] \<Longrightarrow> determinePort u = (if Scheme u = ''https'' then ''443'' else ''80'')"
  by (simp add: determinePort_def)

text \<open>
  C7, on \<open>ConnectionHandler\<close>. The client asks for \<open>https://example.test/\<close>, a URL of
  scheme \<open>https\<close> with no port; the origin is dialed at \<open>example.test:80\<close>.
\<close>

theorem ProcessRequest_dials_80_for_https:
  "map_sum id (\<lambda>u. (Scheme u, Port u)) (url_Parse demo_go_env ''https://example.test/'') =
     Inr (''https'', []) \<and>
   ProcessRequest demo_go_env
     \<lparr>incoming = request_bytes [''GET https://example.test/ HTTP/1.1'', ''''] [],
      finale = EOF, readDeadline = None\<rparr> =
   Some (Forwarded ''example.test:80''
           (request_bytes [''GET / HTTP/1.1'', ''Host: example.test'', ''''] []))"
  by code_simp

lemma handleClient_dials_443_for_https:
  "handleClient demo_go_env
     \<lparr>incoming = request_bytes [''GET https://example.test/ HTTP/1.1'', ''''] [],
      finale = EOF, readDeadline = None\<rparr> =
   Some (Forwarded ''example.test:443''
           (request_bytes [''GET / HTTP/1.1'', ''Host: example.test'', ''''] []))"
  by code_simp

text \<open>
  No function of \<open>RequestProcessor\<close> reads a body: \<open>requestBody\<close> is empty when
  \<open>sendModifiedRequest\<close> runs, so what is forwarded ends with the blank line.
\<close>

lemma parseInitialRequest_requestBody:
  assumes "parseInitialRequest L p = Some (err, p')"
  shows "requestBody p' = requestBody p"
  using assms
  by (auto simp: parseInitialRequest_def parseRequestLine_def split: option.splits if_splits list.splits)

lemma collectHeaders_requestBody:
  assumes "collectHeaders L p = Some (hs, p')"
  shows "requestBody p' = requestBody p \<and> requestMethod p' = requestMethod p"
  using assms
  by (auto simp: collectHeaders_def split: option.splits)

lemma handleClient_forwards_no_body:
  assumes "handleClient L c = Some (Forwarded addr out)"
  shows "\<exists>(p :: RequestProcessor) hs u.
           out = requestMethod p @ '' '' @ determinePath u @ '' '' @ protocolVer p @ CRLF
                 @ header_lines
                     (map (\<lambda>k. (k, the (hs k)))
                        (filter (\<lambda>k. hs k \<noteq> None \<and> ToLower L k \<noteq> ''proxy-connection'')
                           (range_order L hs))
                      @ (if hs ''host'' = None then [(''Host'', Hostname u)] else []))
                 @ CRLF"
proof -
  from handleClient_Forwarded [OF assms] obtain p hs p' u where
    p: "parseInitialRequest L
             \<lparr>reader = c, requestMethod = [], requestTarget = [], protocolVer = [],
              requestBody = []\<rparr> = Some (None, p)" and
    c: "collectHeaders L p = Some (hs, p')" and
    out: "out = sendModifiedRequest L p'
                   \<lparr>cd_host = Hostname u, cd_port = determinePort u,
                    cd_path = determinePath u, cd_headers = hs\<rparr>"
    by blast
  from parseInitialRequest_requestBody [OF p] collectHeaders_requestBody [OF c]
  have "requestBody p' = []" by simp
  with out have "out = requestMethod p' @ '' '' @ determinePath u @ '' '' @ protocolVer p' @ CRLF
                 @ header_lines
                     (map (\<lambda>k. (k, the (hs k)))
                        (filter (\<lambda>k. hs k \<noteq> None \<and> ToLower L k \<noteq> ''proxy-connection'')
                           (range_order L hs))
                      @ (if hs ''host'' = None then [(''Host'', Hostname u)] else []))
                 @ CRLF"
    by (simp add: sendModifiedRequest_layout del: append_assoc)
  then show ?thesis by blast
qed

text \<open>
  C9, on \<open>RequestProcessor\<close>. The client sends a POST with the body \<open>abc\<close> and closes
  its sending side; what is written to the origin ends with the blank line, and the body
  is not forwarded.
\<close>

theorem handleClient_drops_body:
  "handleClient demo_go_env
     \<lparr>incoming = request_bytes [''POST http://example.test/submit HTTP/1.1'',
                                ''Host: example.test'', ''Content-Length: 3'', ''''] ''abc'',
      finale = EOF, readDeadline = None\<rparr> =
   Some (Forwarded ''example.test:80''
           (request_bytes [''POST /submit HTTP/1.1'', ''host: example.test'',
                           ''content-length: 3'', ''''] []))"
  by code_simp

text \<open>
  On \<open>ConnectionHandler\<close> the body is read and forwarded when the client closes its
  sending side; when the client keeps the connection open, the deadline ends the read
  with the timeout error, \<open>readRequestBody\<close> returns it, and nothing is forwarded.
\<close>

lemma ProcessRequest_body_EOF:
  "ProcessRequest demo_go_env
     \<lparr>incoming = request_bytes [''POST http://example.test/submit HTTP/1.1'',
                                ''Host: example.test'', ''Content-Length: 3'', ''''] ''abc'',
      finale = EOF, readDeadline = None\<rparr> =
   Some (Forwarded ''example.test:80''
           (request_bytes [''POST / HTTP/1.1'', ''Host: example.test'',
                           ''Content-Length: 3'', ''''] ''abc''))"
  by code_simp

lemma ProcessRequest_body_Idle:
  "ProcessRequest demo_go_env
     \<lparr>incoming = request_bytes [''POST http://example.test/submit HTTP/1.1'',
                                ''Host: example.test'', ''Content-Length: 3'', ''''] ''abc'',
      finale = Idle, readDeadline = None\<rparr> = Some Closed"
  by code_simp

end
